theory Spec2Isabelle
  imports Main "HOL-Library.AList"
begin

section \<open>Result fusion\<close>

text \<open>
  The program of \<^verbatim>\<open>documentQA.py\<close> is one class, \<^verbatim>\<open>ChatWithFile\<close>, and two page handlers
  of a Streamlit application. This section embeds \<^verbatim>\<open>ChatWithFile.reciprocal_rank_fusion\<close>.

  A result is the dictionary \<^verbatim>\<open>{'query': query_text, 'answer': response['answer']}\<close> that
  \<^verbatim>\<open>chat\<close> appends to \<^verbatim>\<open>all_results\<close>. The type \<open>'q\<close> of the \<^verbatim>\<open>'query'\<close> entry is the type
  of the keys of the dictionary \<^verbatim>\<open>fused_scores\<close>: hashable values compared with \<^verbatim>\<open>==\<close> (strings,
  for the queries the program builds).
\<close>

record 'q result =
  query :: 'q
  answer :: string

text \<open>An entry of \<^verbatim>\<open>fused_scores\<close>: \<^verbatim>\<open>{"doc": result, "score": n}\<close>.\<close>

record 'q fused =
  doc :: "'q result"
  score :: nat

text \<open>
  \<^verbatim>\<open>fused_scores\<close> is a Python \<^verbatim>\<open>dict\<close>: it keeps its keys in insertion order and
  \<^verbatim>\<open>.values()\<close> lists the entries in that order, so it is an association list here. One
  round of the loop over \<^verbatim>\<open>all_results\<close>:
  \<^verbatim>\<open>
    doc_id = result['query']
    if doc_id not in fused_scores:
        fused_scores[doc_id] = {"doc": result, "score": 0}
    fused_scores[doc_id]["score"] += 1
  \<close>
\<close>

definition fuse_result :: "('q \<times> 'q fused) list \<Rightarrow> 'q result \<Rightarrow> ('q \<times> 'q fused) list" where
  "fuse_result fused_scores r =
     (let doc_id = query r;
          fused_scores1 =
            (if map_of fused_scores doc_id = None
             then fused_scores @ [(doc_id, \<lparr>doc = r, score = 0\<rparr>)]
             else fused_scores)
      in AList.map_entry doc_id (\<lambda>e. e\<lparr>score := score e + 1\<rparr>) fused_scores1)"

text \<open>
  \<^verbatim>\<open>sorted(xs, key=k, reverse=True)\<close>: descending in the key, and stable (elements with equal
  keys keep the order they had in \<^verbatim>\<open>xs\<close>, also under \<^verbatim>\<open>reverse=True\<close>). \<^const>\<open>sort_key\<close> is
  the stable insertion sort of the library, ascending, so the key is negated.
\<close>

definition sorted_reverse :: "('a \<Rightarrow> nat) \<Rightarrow> 'a list \<Rightarrow> 'a list" where
  "sorted_reverse k xs = sort_key (\<lambda>x. - int (k x)) xs"

text \<open>
  \<^verbatim>\<open>reciprocal_rank_fusion(self, all_results, k=60)\<close>; the parameter \<^verbatim>\<open>k\<close> is not read by
  the body.
\<close>

definition reciprocal_rank_fusion :: "'q result list \<Rightarrow> 'q fused list" where
  "reciprocal_rank_fusion all_results =
     sorted_reverse score (map snd (foldl fuse_result [] all_results))"

section \<open>Python values, exceptions and the collaborators\<close>

text \<open>
  An exception is a value of type \<open>error\<close>; a function that can raise returns
  \<open>error + 'a\<close>, with \<open>Inl\<close> for the exception. \<open>JSONDecodeError\<close> is a subclass of
  \<open>ValueError\<close> in Python; \<open>OtherError\<close> stands for whatever else a collaborator raises
  (a network failure, a refused request, \<^verbatim>\<open>RecursionError\<close> in the JSON decoder).
\<close>

datatype error =
  AttributeError | TypeError | KeyError | ValueError | JSONDecodeError | OtherError string

text \<open>
  The values \<^verbatim>\<open>json.loads\<close> returns. The program reads a decoded value in two ways only: it
  iterates over it and it subscripts the elements with \<^verbatim>\<open>'query'\<close>. \<^verbatim>\<open>None\<close>, booleans and
  numbers are never inspected, so they are left uninterpreted: \<open>scalar\<close> is the type of
  these values, two of them equal when a Python dictionary takes them for the same key.
\<close>

typedecl scalar

datatype json =
  JScalar scalar
  | JStr string
  | JArr "json list"
  | JObj "(string \<times> json) list"

text \<open>Lists and dictionaries cannot be keys of a dictionary: hashing them raises \<open>TypeError\<close>.\<close>

fun hashable :: "json \<Rightarrow> bool" where
  "hashable (JArr _) = False"
| "hashable (JObj _) = False"
| "hashable _ = True"

text \<open>
  \<^verbatim>\<open>q['query']\<close> for an element \<^verbatim>\<open>q\<close> of the decoded value: a dictionary gives the entry or
  raises \<open>KeyError\<close>; a string or a list takes integer indices only, and a scalar takes no
  subscript at all.
\<close>

fun subscript_query :: "json \<Rightarrow> error + json" where
  "subscript_query (JObj kvs) =
     (case map_of kvs ''query'' of Some v \<Rightarrow> Inr v | None \<Rightarrow> Inl KeyError)"
| "subscript_query (JStr _) = Inl TypeError"
| "subscript_query (JArr _) = Inl TypeError"
| "subscript_query (JScalar _) = Inl TypeError"

text \<open>What a \<^verbatim>\<open>for\<close> over a decoded value visits: the elements of a list, the keys of a
  dictionary, the characters of a string; a scalar is not iterable.\<close>

fun iterate :: "json \<Rightarrow> error + json list" where
  "iterate (JArr xs) = Inr xs"
| "iterate (JObj kvs) = Inr (map (\<lambda>kv. JStr (fst kv)) kvs)"
| "iterate (JStr s) = Inr (map (\<lambda>c. JStr [c]) s)"
| "iterate (JScalar _) = Inl TypeError"

text \<open>The comprehension \<^verbatim>\<open>[q['query'] for q in ...]\<close> over the visited elements; the first
  subscript that raises ends it.\<close>

fun query_of_each :: "json list \<Rightarrow> error + json list" where
  "query_of_each [] = Inr []"
| "query_of_each (q # qs) =
     (case subscript_query q of
        Inl e \<Rightarrow> Inl e
      | Inr v \<Rightarrow> (case query_of_each qs of Inl e \<Rightarrow> Inl e | Inr vs \<Rightarrow> Inr (v # vs)))"

definition related_queries_of :: "json \<Rightarrow> error + json list" where
  "related_queries_of related_queries_dicts =
     (case iterate related_queries_dicts of Inl e \<Rightarrow> Inl e | Inr qs \<Rightarrow> query_of_each qs)"

text \<open>An element that is a dictionary with the key \<^verbatim>\<open>'query'\<close>, and one that is a plain
  string.\<close>

fun has_query :: "json \<Rightarrow> bool" where
  "has_query (JObj kvs) = (map_of kvs ''query'' \<noteq> None)"
| "has_query _ = False"

fun is_plain_string :: "json \<Rightarrow> bool" where
  "is_plain_string (JStr _) = True"
| "is_plain_string _ = False"

text \<open>The two message classes of the program, subclasses of \<^verbatim>\<open>Message\<close> with one attribute,
  \<^verbatim>\<open>content\<close>.\<close>

datatype message = HumanMessage string | AIMessage string

fun content :: "message \<Rightarrow> string" where
  "content (HumanMessage c) = c"
| "content (AIMessage c) = c"

text \<open>
  What \<^verbatim>\<open>self.llm.invoke\<close> returns, as far as the program tells responses apart:
  an object with an attribute \<^verbatim>\<open>content\<close> (LangChain's message object, which is true in a
  condition), a dictionary with a key \<^verbatim>\<open>'content'\<close> (no such attribute; true, being non-empty),
  or any other value, with its truth value and its \<^verbatim>\<open>str()\<close>.
\<close>

datatype llm_response =
  WithContent string
  | DictContent string
  | Other bool string

text \<open>
  The collaborators are stateful and answer as they please, so each call takes the state
  of the world outside the program and returns the next one. A language model maps a
  prompt to a response; a retrieval chain maps a query to a response that is false in a
  condition (\<open>None\<close>) or carries an \<^verbatim>\<open>'answer'\<close>.
\<close>

type_synonym 'w llm = "string \<Rightarrow> 'w \<Rightarrow> (error + llm_response) \<times> 'w"

type_synonym 'w chain = "json \<Rightarrow> 'w \<Rightarrow> (error + string option) \<times> 'w"

text \<open>The library functions the class calls: the two model constructors (from an API key),
  \<^verbatim>\<open>ConversationalRetrievalChain.from_llm\<close> and \<^verbatim>\<open>json.loads\<close>.\<close>

record 'w library =
  ChatOpenAI :: "string \<Rightarrow> 'w llm"
  ChatAnthropic :: "string \<Rightarrow> 'w llm"
  from_llm :: "'w llm \<Rightarrow> 'w chain"
  json_loads :: "string \<Rightarrow> error + json"

text \<open>What the Streamlit calls put on the page: \<^verbatim>\<open>st.write(a, b, ...)\<close> with its arguments,
  and \<^verbatim>\<open>st.error(text)\<close>.\<close>

datatype 'r shown = Text string | Query json | Response llm_response | Results "'r list"

datatype 'r display = Write "'r shown list" | Error string

section \<open>The chat instance\<close>

text \<open>\<^verbatim>\<open>{'score': res['score'], **res['doc']}\<close>: a result with its fused score.\<close>

record scored_result =
  rrf_score :: nat
  scored_query :: json
  scored_answer :: string

text \<open>
  An instance of \<^verbatim>\<open>ChatWithFile\<close>, with the page it writes to and the world of its
  collaborators. \<open>llm\<close> and \<open>llm_anthropic\<close> are \<open>None\<close> where the attribute is Python's
  \<^verbatim>\<open>None\<close>. \<open>chains\<close> holds the attributes that are bound to a retrieval chain, by attribute
  name: a name outside its domain is not an attribute of the instance, and reading it raises
  \<open>AttributeError\<close>.
\<close>

record 'w chat_with_file =
  openai_api_key :: "string option"
  anthropic_api_key :: "string option"
  conversation_history :: "message list"
  llm :: "'w llm option"
  llm_anthropic :: "'w llm option"
  chains :: "string \<rightharpoonup> 'w chain"
  page :: "scored_result display list"
  world :: 'w

text \<open>The truth value of an environment variable read with \<^verbatim>\<open>os.getenv\<close>: \<^verbatim>\<open>None\<close> and the
  empty string are false.\<close>

fun key_given :: "string option \<Rightarrow> bool" where
  "key_given None = False"
| "key_given (Some k) = (k \<noteq> [])"

text \<open>
  \<^verbatim>\<open>setup_conversation_retrieval_chain\<close>: both models start as \<^verbatim>\<open>None\<close>, each is built when
  its key is given, and a chain is bound for each model that was built: \<^verbatim>\<open>self.qa\<close> for
  OpenAI's, \<^verbatim>\<open>self.anthropic_qa\<close> for Anthropic's.
\<close>

definition setup_conversation_retrieval_chain ::
  "'w library \<Rightarrow> 'w chat_with_file \<Rightarrow> 'w chat_with_file" where
  "setup_conversation_retrieval_chain lib s =
     (let s1 = s\<lparr>llm := None, llm_anthropic := None\<rparr>;
          s2 = (case openai_api_key s1 of
                  Some k \<Rightarrow> if k \<noteq> [] then s1\<lparr>llm := Some (ChatOpenAI lib k)\<rparr> else s1
                | None \<Rightarrow> s1);
          s3 = (case anthropic_api_key s2 of
                  Some k \<Rightarrow>
                    if k \<noteq> [] then s2\<lparr>llm_anthropic := Some (ChatAnthropic lib k)\<rparr> else s2
                | None \<Rightarrow> s2);
          s4 = (case llm s3 of
                  Some m \<Rightarrow> s3\<lparr>chains := (chains s3)(''qa'' \<mapsto> from_llm lib m)\<rparr>
                | None \<Rightarrow> s3)
      in (case llm_anthropic s4 of
            Some m \<Rightarrow> s4\<lparr>chains := (chains s4)(''anthropic_qa'' \<mapsto> from_llm lib m)\<rparr>
          | None \<Rightarrow> s4))"

text \<open>
  \<^verbatim>\<open>__init__\<close> reads the two keys, starts the history empty, loads, splits and indexes the
  file (work of the collaborators: \<open>w\<close> is the world they leave behind) and ends with
  \<^verbatim>\<open>setup_conversation_retrieval_chain\<close>. None of the attributes it binds before that call is
  a retrieval chain.
\<close>

definition ChatWithFile ::
  "'w library \<Rightarrow> string option \<Rightarrow> string option \<Rightarrow> 'w \<Rightarrow> 'w chat_with_file" where
  "ChatWithFile lib openai_key anthropic_key w =
     setup_conversation_retrieval_chain lib
       \<lparr>openai_api_key = openai_key, anthropic_api_key = anthropic_key,
        conversation_history = [], llm = None, llm_anthropic = None,
        chains = Map.empty, page = [], world = w\<rparr>"

section \<open>Query expansion\<close>

text \<open>\<^verbatim>\<open>s.find(c)\<close>: the index of the first occurrence of \<open>c\<close>, or \<open>-1\<close>.\<close>

fun py_find :: "char \<Rightarrow> string \<Rightarrow> int" where
  "py_find c [] = - 1"
| "py_find c (x # xs) =
     (if x = c then 0 else (let i = py_find c xs in if i < 0 then - 1 else i + 1))"

text \<open>\<^verbatim>\<open>s.rfind(c)\<close>: the index of the last occurrence of \<open>c\<close>, or \<open>-1\<close>.\<close>

definition py_rfind :: "char \<Rightarrow> string \<Rightarrow> int" where
  "py_rfind c xs =
     (let i = py_find c (rev xs) in if i < 0 then - 1 else int (length xs) - 1 - i)"

text \<open>
  \<^verbatim>\<open>s[start:stop]\<close>: a negative bound counts from the end, each bound is clamped to the
  string, and the slice is empty when the bounds cross.
\<close>

definition slice_bound :: "nat \<Rightarrow> int \<Rightarrow> nat" where
  "slice_bound n i = (if i < 0 then nat (max (i + int n) 0) else min (nat i) n)"

definition py_slice :: "string \<Rightarrow> int \<Rightarrow> int \<Rightarrow> string" where
  "py_slice s start stop =
     (let lo = slice_bound (length s) start; hi = slice_bound (length s) stop
      in take (hi - lo) (drop lo s))"

text \<open>The first three lines of the \<^verbatim>\<open>try\<close> block: the text handed to \<^verbatim>\<open>json.loads\<close>.\<close>

definition json_str :: "string \<Rightarrow> string" where
  "json_str generated_text =
     (let json_start = py_find CHR ''['' generated_text;
          json_end = py_rfind CHR '']'' generated_text + 1
      in py_slice generated_text json_start json_end)"

text \<open>
  The \<^verbatim>\<open>try\<close> block: the decoded value is returned as it is; \<^verbatim>\<open>except (ValueError,
  json.JSONDecodeError)\<close> turns these two exceptions into the empty list, and any other
  exception leaves the function.
\<close>

definition parse_related_queries :: "(string \<Rightarrow> error + json) \<Rightarrow> string \<Rightarrow> error + json" where
  "parse_related_queries loads generated_text =
     (case loads (json_str generated_text) of
        Inr related_queries \<Rightarrow> Inr related_queries
      | Inl e \<Rightarrow> if e = ValueError \<or> e = JSONDecodeError then Inr (JArr []) else Inl e)"

definition apostrophe :: string where
  "apostrophe = [CHR 0x27]"

definition newline :: string where
  "newline = [CHR 0x0A]"

definition expansion_prompt :: "string \<Rightarrow> string" where
  "expansion_prompt original_query =
     ''In light of the original inquiry: '' @ apostrophe @ original_query @ apostrophe
     @ '', let's delve deeper and broaden our exploration. Please construct a JSON array ''
     @ ''containing four distinct but interconnected search queries. Each query should ''
     @ ''reinterpret the original prompt's essence, introducing new dimensions or ''
     @ ''perspectives to investigate. Aim for a blend of complexity and specificity in your ''
     @ ''rephrasings, ensuring each query unveils different facets of the original question. ''
     @ ''This approach is intended to encapsulate a more comprehensive understanding and ''
     @ ''generate the most insightful answers possible. Only respond with the JSON array ''
     @ ''itself.''"

text \<open>
  The text the response is read as: the attribute \<^verbatim>\<open>content\<close>, the entry \<^verbatim>\<open>'content'\<close>, or
  \<^verbatim>\<open>str(response)\<close>; the last case also shows an error on the page.
\<close>

fun generated_text :: "llm_response \<Rightarrow> string" where
  "generated_text (WithContent c) = c"
| "generated_text (DictContent c) = c"
| "generated_text (Other _ str) = str"

fun format_notice :: "llm_response \<Rightarrow> 'r display list" where
  "format_notice (Other _ _) = [Error ''Unexpected response format.'']"
| "format_notice _ = []"

text \<open>
  \<^verbatim>\<open>generate_related_queries\<close>. \<^verbatim>\<open>self.llm.invoke\<close> is called whatever \<^verbatim>\<open>self.llm\<close> is: on
  \<^verbatim>\<open>None\<close> the attribute lookup raises \<open>AttributeError\<close>.
\<close>

definition generate_related_queries ::
  "'w library \<Rightarrow> 'w chat_with_file \<Rightarrow> string \<Rightarrow> (error + json) \<times> 'w chat_with_file" where
  "generate_related_queries lib s original_query =
     (case llm s of
        None \<Rightarrow> (Inl AttributeError, s)
      | Some m \<Rightarrow>
          (case m (expansion_prompt original_query) (world s) of
             (Inl e, w) \<Rightarrow> (Inl e, s\<lparr>world := w\<rparr>)
           | (Inr response, w) \<Rightarrow>
               (parse_related_queries (json_loads lib) (generated_text response),
                s\<lparr>page := page s @ format_notice response, world := w\<rparr>)))"

section \<open>Retrieval, synthesis and the conversation history\<close>

text \<open>
  The choice of the backend inside the loop of \<^verbatim>\<open>chat\<close>:
  \<^verbatim>\<open>
    response = None
    if self.llm:
        response = self.qa.invoke(query_text)
    elif self.llm_anthropic:
        response = self.qa_anthropic.invoke(query_text)
  \<close>
\<close>

definition invoke_chain ::
  "'w chat_with_file \<Rightarrow> string \<Rightarrow> json \<Rightarrow> (error + string option) \<times> 'w chat_with_file" where
  "invoke_chain s attribute query_text =
     (case chains s attribute of
        None \<Rightarrow> (Inl AttributeError, s)
      | Some c \<Rightarrow> (case c query_text (world s) of (r, w) \<Rightarrow> (r, s\<lparr>world := w\<rparr>)))"

definition invoke_backend ::
  "'w chat_with_file \<Rightarrow> json \<Rightarrow> (error + string option) \<times> 'w chat_with_file" where
  "invoke_backend s query_text =
     (if llm s \<noteq> None then invoke_chain s ''qa'' query_text
      else if llm_anthropic s \<noteq> None then invoke_chain s ''qa_anthropic'' query_text
      else (Inr None, s))"

text \<open>The loop over \<^verbatim>\<open>queries\<close>, with \<^verbatim>\<open>all_results\<close> as it grows.\<close>

fun gather_results ::
  "'w chat_with_file \<Rightarrow> json result list \<Rightarrow> json list
     \<Rightarrow> (error + json result list) \<times> 'w chat_with_file" where
  "gather_results s all_results [] = (Inr all_results, s)"
| "gather_results s all_results (query_text # queries) =
     (case invoke_backend s query_text of
        (Inl e, s1) \<Rightarrow> (Inl e, s1)
      | (Inr None, s1) \<Rightarrow>
          gather_results
            (s1\<lparr>page := page s1 @ [Write [Text ''No response received for:'', Query query_text]]\<rparr>)
            all_results queries
      | (Inr (Some a), s1) \<Rightarrow>
          gather_results
            (s1\<lparr>page := page s1 @ [Write [Text ''Query:'', Query query_text],
                                     Write [Text ''Response:'', Text a]]\<rparr>)
            (all_results @ [\<lparr>query = query_text, answer = a\<rparr>]) queries)"

text \<open>Decimal digits of a number, as an f-string prints it.\<close>

fun str_nat :: "nat \<Rightarrow> string" where
  "str_nat n =
     (if n < 10 then [char_of (48 + n)] else str_nat (n div 10) @ [char_of (48 + n mod 10)])"

text \<open>The lines of the prompt, one per result: \<^verbatim>\<open>enumerate\<close> counts from \<open>idx = 0\<close>.\<close>

fun answer_lines :: "nat \<Rightarrow> scored_result list \<Rightarrow> string" where
  "answer_lines idx [] = []"
| "answer_lines idx (r # rs) =
     ''Answer '' @ str_nat (idx + 1) @ '' (Score: '' @ str_nat (rrf_score r) @ ''): ''
     @ scored_answer r @ newline @ newline @ answer_lines (idx + 1) rs"

text \<open>\<^verbatim>\<open>create_synthesis_prompt\<close> sorts the results once more, shows them and builds the
  prompt.\<close>

definition create_synthesis_prompt ::
  "'w chat_with_file \<Rightarrow> string \<Rightarrow> scored_result list \<Rightarrow> string \<times> 'w chat_with_file" where
  "create_synthesis_prompt s original_question all_results =
     (let sorted_results = sorted_reverse rrf_score all_results
      in (''Based on the user's original question: '' @ apostrophe @ original_question
          @ apostrophe
          @ '', here are the answers to the original and related questions, ordered by their ''
          @ ''relevance (with RRF scores). Please synthesize a comprehensive answer focusing ''
          @ ''on answering the original question using all the information provided below:''
          @ newline @ newline
          @ answer_lines 0 sorted_results
          @ ''Given the above answers, especially considering those with higher scores, ''
          @ ''please provide the best possible composite answer to the user's original ''
          @ ''question.'',
          s\<lparr>page := page s @ [Write [Text ''Sorted Results'', Results sorted_results]]\<rparr>))"

text \<open>The two appends that end every path of \<^verbatim>\<open>chat\<close>.\<close>

definition append_turn :: "'w chat_with_file \<Rightarrow> string \<Rightarrow> string \<Rightarrow> 'w chat_with_file" where
  "append_turn s question ai_content =
     s\<lparr>conversation_history :=
          conversation_history s @ [HumanMessage question, AIMessage ai_content]\<rparr>"

text \<open>
  The branch of \<^verbatim>\<open>chat\<close> for a non-empty \<^verbatim>\<open>all_results\<close>. A query that is a list or a
  dictionary cannot be a key of \<^verbatim>\<open>fused_scores\<close>, so the fusion raises \<open>TypeError\<close> on it.
  The function returns the \<^verbatim>\<open>'answer'\<close> of the dictionary \<^verbatim>\<open>chat\<close> returns.
\<close>

definition synthesize ::
  "'w chat_with_file \<Rightarrow> string \<Rightarrow> json result list \<Rightarrow> (error + string) \<times> 'w chat_with_file" where
  "synthesize s question all_results =
     (if \<not> list_all (\<lambda>r. hashable (query r)) all_results then (Inl TypeError, s)
      else
        let reranked_results = reciprocal_rank_fusion all_results;
            scored_results =
              map (\<lambda>res. \<lparr>rrf_score = score res, scored_query = query (doc res),
                           scored_answer = answer (doc res)\<rparr>) reranked_results;
            (synthesis_prompt, s1) = create_synthesis_prompt s question scored_results
        in (case llm s1 of
              None \<Rightarrow> (Inl AttributeError, s1)
            | Some m \<Rightarrow>
                (case m synthesis_prompt (world s1) of
                   (Inl e, w) \<Rightarrow> (Inl e, s1\<lparr>world := w\<rparr>)
                 | (Inr (WithContent c), w) \<Rightarrow>
                     (Inr c,
                      append_turn
                        (s1\<lparr>page := page s1 @ [Write [Response (WithContent c)]], world := w\<rparr>)
                        question c)
                 | (Inr (DictContent c), w) \<Rightarrow>
                     (Inl AttributeError,
                      s1\<lparr>page := page s1 @ [Write [Response (DictContent c)]], world := w\<rparr>)
                 | (Inr (Other truth str), w) \<Rightarrow>
                     (if truth
                      then (Inl AttributeError,
                            s1\<lparr>page := page s1 @ [Write [Response (Other truth str)]],
                                world := w\<rparr>)
                      else (Inr ''Unable to synthesize a response.'',
                            append_turn (s1\<lparr>world := w\<rparr>) question
                              ''Unable to synthesize a response.'')))))"

text \<open>\<^verbatim>\<open>chat\<close>, from the expansion of the question to the value returned: the \<^verbatim>\<open>'answer'\<close>
  of the dictionary \<^verbatim>\<open>{'answer': ...}\<close>.\<close>

definition chat ::
  "'w library \<Rightarrow> 'w chat_with_file \<Rightarrow> string \<Rightarrow> (error + string) \<times> 'w chat_with_file" where
  "chat lib s question =
     (case generate_related_queries lib s question of
        (Inl e, s1) \<Rightarrow> (Inl e, s1)
      | (Inr related_queries_dicts, s1) \<Rightarrow>
          (case related_queries_of related_queries_dicts of
             Inl e \<Rightarrow> (Inl e, s1)
           | Inr related_queries \<Rightarrow>
               (case gather_results s1 [] (JStr question # related_queries) of
                  (Inl e, s2) \<Rightarrow> (Inl e, s2)
                | (Inr all_results, s2) \<Rightarrow>
                    if all_results \<noteq> [] then synthesize s2 question all_results
                    else (Inr ''No results were available to synthesize a response.'',
                          append_turn s2 question ''No answer available.''))))"

text \<open>Two states of an instance with the same models and the same chain attributes.\<close>

definition same_backends :: "'w chat_with_file \<Rightarrow> 'w chat_with_file \<Rightarrow> bool" where
  "same_backends s s' =
     (llm s' = llm s \<and> llm_anthropic s' = llm_anthropic s \<and> chains s' = chains s)"

text \<open>Calls of \<^verbatim>\<open>chat\<close> in a row on one instance, one per question, as the chat page makes
  them; an exception ends the run.\<close>

fun chat_calls ::
  "'w library \<Rightarrow> 'w chat_with_file \<Rightarrow> string list
     \<Rightarrow> (error + string list) \<times> 'w chat_with_file" where
  "chat_calls lib s [] = (Inr [], s)"
| "chat_calls lib s (question # questions) =
     (case chat lib s question of
        (Inl e, s1) \<Rightarrow> (Inl e, s1)
      | (Inr a, s1) \<Rightarrow>
          (case chat_calls lib s1 questions of
             (Inl e, s2) \<Rightarrow> (Inl e, s2)
           | (Inr answers, s2) \<Rightarrow> (Inr (a # answers), s2)))"

section \<open>Metadata of the chunks\<close>

text \<open>
  The values a metadata dictionary holds. \<^verbatim>\<open>simplify_metadata\<close> tells lists and
  dictionaries from everything else; numbers, booleans, \<^verbatim>\<open>None\<close> and tuples stand for the
  rest.
\<close>

datatype meta_value =
  MStr string
  | MInt int
  | MBool bool
  | MNone
  | MList "meta_value list"
  | MDict "(string \<times> meta_value) list"
  | MTuple "meta_value list"

text \<open>\<^verbatim>\<open>isinstance(value, (list, dict))\<close>.\<close>

fun is_list_or_dict :: "meta_value \<Rightarrow> bool" where
  "is_list_or_dict (MList _) = True"
| "is_list_or_dict (MDict _) = True"
| "is_list_or_dict _ = False"

text \<open>\<^verbatim>\<open>isinstance(value, str)\<close>.\<close>

fun is_str :: "meta_value \<Rightarrow> bool" where
  "is_str (MStr _) = True"
| "is_str _ = False"

text \<open>A document of the splitter. \<open>metadata\<close> is \<open>None\<close> when the object has no attribute
  \<^verbatim>\<open>metadata\<close> or the attribute is not a dictionary; a dictionary is the list of its items.\<close>

record document =
  page_content :: string
  metadata :: "(string \<times> meta_value) list option"

text \<open>
  \<^verbatim>\<open>simplify_metadata\<close>, local to \<^verbatim>\<open>store_in_chroma\<close>. The loop runs over the items of the
  dictionary and assigns to the key it is at; \<open>str\<close> is Python's \<^verbatim>\<open>str()\<close>.
  \<^verbatim>\<open>
    for key, value in doc.metadata.items():
        if isinstance(value, (list, dict)):
            doc.metadata[key] = str(value)
  \<close>
\<close>

definition simplify_item ::
  "(meta_value \<Rightarrow> string) \<Rightarrow> (string \<times> meta_value) list \<Rightarrow> string \<times> meta_value
     \<Rightarrow> (string \<times> meta_value) list" where
  "simplify_item str md item =
     (if is_list_or_dict (snd item) then AList.update (fst item) (MStr (str (snd item))) md
      else md)"

definition simplify_metadata :: "(meta_value \<Rightarrow> string) \<Rightarrow> document \<Rightarrow> document" where
  "simplify_metadata str d =
     (case metadata d of
        None \<Rightarrow> d
      | Some md \<Rightarrow> d\<lparr>metadata := Some (foldl (simplify_item str) md md)\<rparr>)"

text \<open>The first statement of \<^verbatim>\<open>store_in_chroma\<close>:
  \<^verbatim>\<open>self.docs = [simplify_metadata(doc) for doc in self.docs]\<close>.\<close>

definition simplified_docs :: "(meta_value \<Rightarrow> string) \<Rightarrow> document list \<Rightarrow> document list" where
  "simplified_docs str docs = map (simplify_metadata str) docs"

text \<open>What the loop leaves in place of a value: the \<^verbatim>\<open>str()\<close> of a list or a dictionary,
  and any other value itself.\<close>

definition simplified_value :: "(meta_value \<Rightarrow> string) \<Rightarrow> meta_value \<Rightarrow> meta_value" where
  "simplified_value str v = (if is_list_or_dict v then MStr (str v) else v)"

text \<open>A document whose metadata holds strings only.\<close>

definition string_valued :: "document \<Rightarrow> bool" where
  "string_valued d =
     (case metadata d of None \<Rightarrow> True | Some md \<Rightarrow> list_all (\<lambda>item. is_str (snd item)) md)"

section \<open>The upload page\<close>

text \<open>What \<^verbatim>\<open>st.session_state\<close> holds on this page: the path and the type of the file
  (strings) and the page number.\<close>

datatype state_value = StateStr string | StateInt int

text \<open>The elements the handler puts on the page; a button carries the update of the session
  state its \<^verbatim>\<open>on_click\<close> makes.\<close>

datatype element =
  Title string
  | FileUploader string "string list"
  | Success string
  | ErrorMessage string
  | Button string "(string \<times> state_value) list"

record uploaded_file =
  name :: string
  getvalue :: string

text \<open>The application outside the chat instance: the session state, the files and the
  directories on disk, and the page.\<close>

record app =
  session_state :: "string \<rightharpoonup> state_value"
  files :: "string \<rightharpoonup> string"
  directories :: "string set"
  elements :: "element list"

text \<open>\<^verbatim>\<open>s.endswith(suffix)\<close>.\<close>

definition endswith :: "string \<Rightarrow> string \<Rightarrow> bool" where
  "endswith s suffix =
     (length suffix \<le> length s \<and> drop (length s - length suffix) s = suffix)"

text \<open>\<^verbatim>\<open>s.upper()\<close> on the letters \<^verbatim>\<open>a\<close> to \<^verbatim>\<open>z\<close>.\<close>

definition upper :: "string \<Rightarrow> string" where
  "upper s =
     map (\<lambda>c. let n = (of_char c :: nat) in if 97 \<le> n \<and> n \<le> 122 then char_of (n - 32) else c) s"

text \<open>\<^verbatim>\<open>os.path.join(a, b)\<close> for POSIX paths: an absolute \<open>b\<close> replaces \<open>a\<close>; a separator is
  added unless \<open>a\<close> is empty or ends in one.\<close>

definition os_path_join :: "string \<Rightarrow> string \<Rightarrow> string" where
  "os_path_join a b =
     (if b \<noteq> [] \<and> hd b = CHR ''/'' then b
      else if a = [] \<or> last a = CHR ''/'' then a @ b
      else a @ ''/'' @ b)"

text \<open>The \<^verbatim>\<open>if\<close>/\<^verbatim>\<open>elif\<close> chain on the name of the file; \<open>None\<close> is the fallback
  \<^verbatim>\<open>file_type = None\<close>.\<close>

definition file_type_of :: "string \<Rightarrow> string option" where
  "file_type_of file_name =
     (if endswith file_name ''.csv'' then Some ''csv''
      else if endswith file_name ''.pdf'' then Some ''pdf''
      else if endswith file_name ''.txt'' then Some ''txt''
      else if endswith file_name ''.pptx'' then Some ''pptx''
      else if endswith file_name ''.docx'' then Some ''docx''
      else if endswith file_name ''.xlsx'' then Some ''xlsx''
      else None)"

text \<open>
  \<^verbatim>\<open>upload_and_handle_file\<close>. \<open>uploaded\<close> is what \<^verbatim>\<open>st.file_uploader\<close> returns: \<open>None\<close> until
  the user has chosen a file. Writing the file is taken to succeed.
\<close>

definition upload_and_handle_file :: "app \<Rightarrow> uploaded_file option \<Rightarrow> app" where
  "upload_and_handle_file a uploaded =
     (let a1 = a\<lparr>elements := elements a @
                 [Title ''Document QA - Chat with Document Data'',
                  FileUploader ''Choose a XLSX, PPTX, DOCX, PDF, CSV, or TXT file''
                    [''xlsx'', ''pptx'', ''docx'', ''pdf'', ''csv'', ''txt'']]\<rparr>
      in case uploaded of
           None \<Rightarrow> a1
         | Some f \<Rightarrow>
             (case file_type_of (name f) of
                Some file_type \<Rightarrow>
                  (let csv_pdf_txt_path = os_path_join ''temp'' (name f);
                       a2 = (if ''temp'' \<notin> directories a1 \<and> files a1 ''temp'' = None
                             then a1\<lparr>directories := insert ''temp'' (directories a1)\<rparr> else a1);
                       a3 = a2\<lparr>files := (files a2)(csv_pdf_txt_path \<mapsto> getvalue f)\<rparr>;
                       a4 = a3\<lparr>session_state := (session_state a3)
                                (''file_path'' \<mapsto> StateStr csv_pdf_txt_path,
                                 ''file_type'' \<mapsto> StateStr file_type)\<rparr>
                   in a4\<lparr>elements := elements a4 @
                          [Success (upper file_type @ '' file uploaded successfully.''),
                           Button ''Proceed to Chat'' [(''page'', StateInt 2)]]\<rparr>)
              | None \<Rightarrow>
                  a1\<lparr>elements := elements a1 @
                       [ErrorMessage (''Unsupported file type. Please upload a XLSX, PPTX, ''
                          @ ''DOCX, PDF, CSV, or TXT file.'')]\<rparr>))"

section \<open>Test doubles for the collaborators\<close>

text \<open>
  Concrete collaborators, to run the definitions on: a decoder that knows two texts, a
  model that answers the expansion prompt with \<open>reply\<close> and every other prompt with
  \<open>Paris\<close>, and a chain that answers from a table. Their world counts the calls served.
\<close>

definition demo_loads :: "string \<Rightarrow> error + json" where
  \<open>demo_loads text =
     (if text = ''["capital of France", "largest French city"]''
      then Inr (JArr [JStr ''capital of France'', JStr ''largest French city''])
      else if text = ''[{"query": "largest French city"}]''
      then Inr (JArr [JObj [(''query'', JStr ''largest French city'')]])
      else Inl JSONDecodeError)\<close>

definition demo_llm :: "string \<Rightarrow> nat llm" where
  "demo_llm reply prompt w =
     (Inr (WithContent (if take 8 prompt = ''In light'' then reply else ''Paris'')), Suc w)"

definition demo_chain :: "(json \<Rightarrow> string option) \<Rightarrow> nat chain" where
  "demo_chain answers query_text w = (Inr (answers query_text), Suc w)"

definition demo_library :: "string \<Rightarrow> (json \<Rightarrow> string option) \<Rightarrow> nat library" where
  "demo_library reply answers =
     \<lparr>ChatOpenAI = (\<lambda>key. demo_llm reply), ChatAnthropic = (\<lambda>key. demo_llm reply),
      from_llm = (\<lambda>m. demo_chain answers), json_loads = demo_loads\<rparr>"

text \<open>A table of answers for the chain, and a \<^verbatim>\<open>str()\<close> that prints one list.\<close>

definition demo_answers :: "json \<Rightarrow> string option" where
  "demo_answers query_text =
     (if query_text = JStr ''What is the capital of France?''
      then Some ''Paris is the capital of France.''
      else if query_text = JStr ''largest French city''
      then Some ''Paris is the largest city of France.''
      else None)"

definition demo_str :: "meta_value \<Rightarrow> string" where
  "demo_str v = (if v = MList [MInt 1, MInt 2] then ''[1, 2]'' else ''{}'')"

text \<open>An instance built with an OpenAI key over the test doubles.\<close>

definition demo_instance :: "string \<Rightarrow> (json \<Rightarrow> string option) \<Rightarrow> nat chat_with_file" where
  "demo_instance reply answers =
     ChatWithFile (demo_library reply answers) (Some ''sk-test'') None 0"

section \<open>Shape of the conversation history\<close>

text \<open>A history that is a sequence of pairs, a \<open>HumanMessage\<close> followed by an \<open>AIMessage\<close>:
  strictly alternating, the human turn first.\<close>

fun alternating :: "message list \<Rightarrow> bool" where
  "alternating [] = True"
| "alternating (HumanMessage _ # AIMessage _ # rest) = alternating rest"
| "alternating _ = False"

section \<open>Properties of the fusion\<close>

lemma map_entry_append_fresh:
  "k \<notin> fst ` set xs \<Longrightarrow> AList.map_entry k f (xs @ [(k, v)]) = xs @ [(k, f v)]"
  by (induction xs) auto

lemma fuse_result_fresh:
  assumes "query r \<notin> fst ` set acc"
  shows "fuse_result acc r = acc @ [(query r, \<lparr>doc = r, score = 1\<rparr>)]"
proof -
  from assms have "map_of acc (query r) = None"
    by (simp add: map_of_eq_None_iff)
  with assms show ?thesis
    by (simp add: fuse_result_def map_entry_append_fresh)
qed

lemma foldl_fuse_result_distinct:
  assumes "distinct (map query rs)" and "set (map query rs) \<inter> fst ` set acc = {}"
  shows "foldl fuse_result acc rs = acc @ map (\<lambda>r. (query r, \<lparr>doc = r, score = 1\<rparr>)) rs"
  using assms
proof (induction rs arbitrary: acc)
  case Nil
  then show ?case by simp
next
  case (Cons r rs)
  from Cons.prems have fresh: "query r \<notin> fst ` set acc" by auto
  let ?acc = "acc @ [(query r, \<lparr>doc = r, score = 1\<rparr>)]"
  from Cons.prems have "distinct (map query rs)"
    and "set (map query rs) \<inter> fst ` set ?acc = {}" by auto
  then have "foldl fuse_result ?acc rs = ?acc @ map (\<lambda>r. (query r, \<lparr>doc = r, score = 1\<rparr>)) rs"
    by (rule Cons.IH)
  with fresh show ?case by (simp add: fuse_result_fresh)
qed

lemma sorted_reverse_tie:
  assumes "\<forall>x \<in> set xs. k x = c"
  shows "sorted_reverse k xs = xs"
proof -
  from assms have "map (\<lambda>x. - int (k x)) xs = replicate (length xs) (- int c)"
    by (simp add: map_replicate_const [symmetric] cong: map_cong)
  then have "sorted (map (\<lambda>x. - int (k x)) xs)"
    by (simp add: sorted_replicate)
  then show ?thesis
    unfolding sorted_reverse_def by (rule sort_key_id_if_sorted)
qed

lemma reciprocal_rank_fusion_distinct:
  assumes "distinct (map query rs)"
  shows "reciprocal_rank_fusion rs = map (\<lambda>r. \<lparr>doc = r, score = 1\<rparr>) rs"
proof -
  from assms have "foldl fuse_result [] rs = map (\<lambda>r. (query r, \<lparr>doc = r, score = 1\<rparr>)) rs"
    using foldl_fuse_result_distinct [of rs "[]"] by simp
  then have "map snd (foldl fuse_result [] rs) = map (\<lambda>r. \<lparr>doc = r, score = 1\<rparr>) rs"
    by (simp add: comp_def)
  moreover have "sorted_reverse score (map (\<lambda>r. \<lparr>doc = r, score = 1\<rparr>) rs)
      = map (\<lambda>r. \<lparr>doc = r, score = 1\<rparr>) rs"
    by (rule sorted_reverse_tie [where c = 1]) auto
  ultimately show ?thesis by (simp add: reciprocal_rank_fusion_def)
qed

text \<open>
  C2. For every non-empty list of results whose \<^verbatim>\<open>'query'\<close> fields are pairwise distinct,
  \<^verbatim>\<open>reciprocal_rank_fusion\<close> returns one entry per result, and the fused score of every
  entry is exactly 1: no result is told apart from any other.
\<close>

theorem fusion_scores_all_one:
  assumes "all_results \<noteq> []" and "distinct (map query all_results)"
  shows "reciprocal_rank_fusion all_results \<noteq> []
    \<and> length (reciprocal_rank_fusion all_results) = length all_results
    \<and> (\<forall>e \<in> set (reciprocal_rank_fusion all_results). score e = 1)"
  using assms by (auto simp: reciprocal_rank_fusion_distinct)

theorem fusion_scores_all_one_witness:
  "map score (reciprocal_rank_fusion
      [\<lparr>query = ''capital of France'', answer = ''Paris''\<rparr>,
       \<lparr>query = ''largest French city'', answer = ''Paris, again''\<rparr>,
       \<lparr>query = ''seat of government'', answer = ''Paris''\<rparr>]) = [1, 1, 1]"
proof -
  let ?rs = "[\<lparr>query = ''capital of France'', answer = ''Paris''\<rparr>,
       \<lparr>query = ''largest French city'', answer = ''Paris, again''\<rparr>,
       \<lparr>query = ''seat of government'', answer = ''Paris''\<rparr>]"
  have ne: "?rs \<noteq> []" by simp
  have d: "distinct (map query ?rs)" by simp
  from fusion_scores_all_one [OF ne d]
  have len: "length (reciprocal_rank_fusion ?rs) = 3"
    and all1: "\<forall>e \<in> set (reciprocal_rank_fusion ?rs). score e = 1" by simp_all
  from all1 have "map score (reciprocal_rank_fusion ?rs)
      = replicate (length (reciprocal_rank_fusion ?rs)) 1"
    by (simp add: map_replicate_const [symmetric] cong: map_cong)
  with len show ?thesis by (simp add: numeral_3_eq_3)
qed

section \<open>Parsing the related queries\<close>

declare str_nat.simps [simp del]

lemma py_find_notin: "c \<notin> set xs \<Longrightarrow> py_find c xs = - 1"
  by (induction xs) auto

lemma py_find_first: "c \<notin> set pre \<Longrightarrow> py_find c (pre @ c # rest) = int (length pre)"
  by (induction pre) (auto simp: Let_def)

lemma py_rfind_notin: "c \<notin> set xs \<Longrightarrow> py_rfind c xs = - 1"
  by (simp add: py_rfind_def py_find_notin)

lemma py_rfind_last: "c \<notin> set post \<Longrightarrow> py_rfind c (pre @ c # post) = int (length pre)"
  using py_find_first [of c "rev post" "rev pre"]
  by (simp add: py_rfind_def Let_def)

lemma json_str_brackets:
  assumes "CHR ''['' \<notin> set pre" and "CHR '']'' \<notin> set post"
  shows "json_str (pre @ ''['' @ mid @ '']'' @ post) = ''['' @ mid @ '']''"
proof -
  define t where "t = pre @ ''['' @ mid @ '']'' @ post"
  have a: "py_find CHR ''['' t = int (length pre)"
    unfolding t_def using py_find_first [OF assms(1), of "mid @ '']'' @ post"] by simp
  have b: "py_rfind CHR '']'' t + 1 = int (length pre + length mid + 2)"
    unfolding t_def using py_rfind_last [OF assms(2), of "pre @ ''['' @ mid"] by simp
  have len: "length t = length pre + length mid + length post + 2"
    by (simp add: t_def)
  have lo: "slice_bound (length t) (py_find CHR ''['' t) = length pre"
    by (simp add: slice_bound_def a len)
  have hi: "slice_bound (length t) (py_rfind CHR '']'' t + 1) = length pre + length mid + 2"
    by (simp add: slice_bound_def b len)
  have "json_str t = take (length mid + 2) (drop (length pre) t)"
    by (simp add: json_str_def py_slice_def Let_def lo hi)
  also have "\<dots> = ''['' @ mid @ '']''"
    by (simp add: t_def)
  finally show ?thesis by (simp add: t_def)
qed

lemma json_str_no_brackets:
  assumes "CHR ''['' \<notin> set text" and "CHR '']'' \<notin> set text"
  shows "json_str text = []"
  using assms by (simp add: json_str_def py_find_notin py_rfind_notin py_slice_def slice_bound_def Let_def)


lemma generate_related_queries_returns:
  assumes "llm s = Some m" and "m (expansion_prompt original_query) (world s) = (Inr response, w)"
  shows "generate_related_queries lib s original_query =
    (parse_related_queries (json_loads lib) (generated_text response),
     s\<lparr>page := page s @ format_notice response, world := w\<rparr>)"
  using assms by (simp add: generate_related_queries_def)

text \<open>
  C5. Once the model has answered, \<^verbatim>\<open>generate_related_queries\<close> decodes the part of the
  response text from its first \<open>[\<close> to its last \<open>]\<close>. When that part decodes, the value
  returned is the decoded value itself (for an array: its elements, in their order). When
  decoding fails with \<open>ValueError\<close> or \<open>JSONDecodeError\<close>, the empty list is returned and
  nothing is raised. A text without brackets hands the empty text to the decoder, so it
  ends in the empty list as well. The conversation history is not touched, and the page
  shows nothing but the notice for a response of an unexpected kind, which does not depend
  on the decoding.
\<close>

theorem related_queries_parsing:
  assumes "llm s = Some m"
    and "m (expansion_prompt original_query) (world s) = (Inr response, w)"
  shows "(\<forall>v. json_loads lib (json_str (generated_text response)) = Inr v
            \<longrightarrow> fst (generate_related_queries lib s original_query) = Inr v)
    \<and> (\<forall>e. json_loads lib (json_str (generated_text response)) = Inl e
              \<and> (e = ValueError \<or> e = JSONDecodeError)
            \<longrightarrow> fst (generate_related_queries lib s original_query) = Inr (JArr []))
    \<and> (\<forall>pre mid post. generated_text response = pre @ ''['' @ mid @ '']'' @ post
              \<and> CHR ''['' \<notin> set pre \<and> CHR '']'' \<notin> set post
            \<longrightarrow> json_str (generated_text response) = ''['' @ mid @ '']'')
    \<and> (CHR ''['' \<notin> set (generated_text response) \<and> CHR '']'' \<notin> set (generated_text response)
            \<longrightarrow> json_str (generated_text response) = []
              \<and> (json_loads lib [] = Inl JSONDecodeError
                    \<longrightarrow> fst (generate_related_queries lib s original_query) = Inr (JArr [])))
    \<and> conversation_history (snd (generate_related_queries lib s original_query))
          = conversation_history s
    \<and> page (snd (generate_related_queries lib s original_query))
          = page s @ format_notice response"
proof -
  note run = generate_related_queries_returns [OF assms]
  have ok: "\<forall>v. json_loads lib (json_str (generated_text response)) = Inr v
            \<longrightarrow> fst (generate_related_queries lib s original_query) = Inr v"
    by (simp add: run parse_related_queries_def)
  have failure: "\<forall>e. json_loads lib (json_str (generated_text response)) = Inl e
              \<and> (e = ValueError \<or> e = JSONDecodeError)
            \<longrightarrow> fst (generate_related_queries lib s original_query) = Inr (JArr [])"
    by (auto simp: run parse_related_queries_def)
  have part: "\<forall>pre mid post. generated_text response = pre @ ''['' @ mid @ '']'' @ post
              \<and> CHR ''['' \<notin> set pre \<and> CHR '']'' \<notin> set post
            \<longrightarrow> json_str (generated_text response) = ''['' @ mid @ '']''"
    using json_str_brackets by metis
  have none: "CHR ''['' \<notin> set (generated_text response) \<and> CHR '']'' \<notin> set (generated_text response)
            \<longrightarrow> json_str (generated_text response) = []
              \<and> (json_loads lib [] = Inl JSONDecodeError
                    \<longrightarrow> fst (generate_related_queries lib s original_query) = Inr (JArr []))"
    by (auto simp: run parse_related_queries_def json_str_no_brackets)
  have hist: "conversation_history (snd (generate_related_queries lib s original_query))
          = conversation_history s"
    by (simp add: run)
  have shown: "page (snd (generate_related_queries lib s original_query))
          = page s @ format_notice response"
    by (simp add: run)
  from ok failure part none hist shown show ?thesis by blast
qed

theorem related_queries_parsing_witness:
  \<open>fst (generate_related_queries
          (demo_library ''Here you are: ["capital of France", "largest French city"]'' Map.empty)
          (ChatWithFile
             (demo_library ''Here you are: ["capital of France", "largest French city"]'' Map.empty)
             (Some ''sk-test'') None 0)
          ''What is the capital of France?'')
     = Inr (JArr [JStr ''capital of France'', JStr ''largest French city''])\<close>
proof -
  let ?reply = \<open>''Here you are: ["capital of France", "largest French city"]''\<close>
  let ?lib = "demo_library ?reply Map.empty"
  let ?s = "ChatWithFile ?lib (Some ''sk-test'') None 0"
  have m: "llm ?s = Some (demo_llm ?reply)"
    by (simp add: ChatWithFile_def setup_conversation_retrieval_chain_def demo_library_def)
  have r: "demo_llm ?reply (expansion_prompt ''What is the capital of France?'') (world ?s)
      = (Inr (WithContent ?reply), Suc (world ?s))"
    by (simp add: demo_llm_def expansion_prompt_def)
  have part: \<open>json_str ?reply = ''["capital of France", "largest French city"]''\<close>
    by (simp add: json_str_def py_rfind_def py_slice_def slice_bound_def Let_def)
  have loads: \<open>json_loads ?lib (json_str (generated_text (WithContent ?reply)))
      = Inr (JArr [JStr ''capital of France'', JStr ''largest French city''])\<close>
    by (simp add: part demo_library_def demo_loads_def)
  from related_queries_parsing [OF m r, of ?lib] loads show ?thesis by blast
qed

section \<open>What a call of chat does to the history\<close>

lemma invoke_chain_history:
  "conversation_history (snd (invoke_chain s attribute q)) = conversation_history s"
  by (simp add: invoke_chain_def split: option.split prod.split)

lemma invoke_backend_history:
  "conversation_history (snd (invoke_backend s q)) = conversation_history s"
  by (simp add: invoke_backend_def invoke_chain_history)

lemma gather_results_history:
  "conversation_history (snd (gather_results s acc qs)) = conversation_history s"
proof (induction qs arbitrary: s acc)
  case Nil
  then show ?case by simp
next
  case (Cons q qs)
  obtain r s1 where step: "invoke_backend s q = (r, s1)" by (cases "invoke_backend s q")
  then have h1: "conversation_history s1 = conversation_history s"
    using invoke_backend_history [of s q] by simp
  show ?case
  proof (cases r)
    case (Inl e)
    with step h1 show ?thesis by simp
  next
    case (Inr response)
    with step h1 show ?thesis
      by (cases response) (simp_all add: Cons.IH)
  qed
qed

lemma gather_results_extends:
  "fst (gather_results s acc qs) = Inr rs \<Longrightarrow> \<exists>more. rs = acc @ more"
proof (induction qs arbitrary: s acc)
  case Nil
  then show ?case by simp
next
  case (Cons q qs)
  obtain r s1 where step: "invoke_backend s q = (r, s1)" by (cases "invoke_backend s q")
  show ?case
  proof (cases r)
    case (Inl e)
    with step Cons.prems show ?thesis by simp
  next
    case (Inr response)
    show ?thesis
    proof (cases response)
      case None
      with Inr step Cons.prems Cons.IH show ?thesis by simp
    next
      case (Some a)
      with Inr step Cons.prems
      have "\<exists>more. rs = (acc @ [\<lparr>query = q, answer = a\<rparr>]) @ more"
        by (intro Cons.IH) simp
      then show ?thesis by auto
    qed
  qed
qed

lemma generate_related_queries_history:
  "conversation_history (snd (generate_related_queries lib s q)) = conversation_history s"
  by (simp add: generate_related_queries_def split: option.split prod.split sum.split)

lemma synthesize_appends:
  assumes "synthesize s question all_results = (Inr a, s')"
  shows "conversation_history s' = conversation_history s @ [HumanMessage question, AIMessage a]"
  using assms
  by (auto simp: synthesize_def Let_def append_turn_def create_synthesis_prompt_def
      split: if_splits option.splits prod.splits sum.splits llm_response.splits)

lemma synthesize_raises:
  assumes "synthesize s question all_results = (Inl e, s')"
  shows "conversation_history s' = conversation_history s"
  using assms
  by (auto simp: synthesize_def Let_def append_turn_def create_synthesis_prompt_def
      split: if_splits option.splits prod.splits sum.splits llm_response.splits)

lemma chat_appends:
  assumes "chat lib s question = (Inr a, s')"
  shows "\<exists>c. conversation_history s' = conversation_history s @ [HumanMessage question, AIMessage c]"
proof -
  obtain r1 s1 where g: "generate_related_queries lib s question = (r1, s1)"
    by (cases "generate_related_queries lib s question")
  then have h1: "conversation_history s1 = conversation_history s"
    using generate_related_queries_history [of lib s question] by simp
  from assms g obtain dicts where r1: "r1 = Inr dicts"
    by (cases r1) (simp_all add: chat_def)
  from assms g r1 obtain related where rel: "related_queries_of dicts = Inr related"
    by (cases "related_queries_of dicts") (simp_all add: chat_def)
  obtain r2 s2 where l: "gather_results s1 [] (JStr question # related) = (r2, s2)"
    by (cases "gather_results s1 [] (JStr question # related)")
  then have h2: "conversation_history s2 = conversation_history s1"
    using gather_results_history [of s1 "[]" "JStr question # related"] by simp
  from assms g r1 rel l obtain all_results where r2: "r2 = Inr all_results"
    by (cases r2) (simp_all add: chat_def)
  show ?thesis
  proof (cases "all_results = []")
    case True
    with assms g r1 rel l r2 have "s' = append_turn s2 question ''No answer available.''"
      by (simp add: chat_def)
    with h1 h2 show ?thesis by (simp add: append_turn_def)
  next
    case False
    with assms g r1 rel l r2 have "synthesize s2 question all_results = (Inr a, s')"
      by (simp add: chat_def)
    from synthesize_appends [OF this] h1 h2 show ?thesis by simp
  qed
qed

lemma chat_raises_history:
  assumes "chat lib s question = (Inl e, s')"
  shows "conversation_history s' = conversation_history s"
proof -
  obtain r1 s1 where g: "generate_related_queries lib s question = (r1, s1)"
    by (cases "generate_related_queries lib s question")
  then have h1: "conversation_history s1 = conversation_history s"
    using generate_related_queries_history [of lib s question] by simp
  show ?thesis
  proof (cases r1)
    case (Inl e1)
    with assms g h1 show ?thesis by (simp add: chat_def)
  next
    case (Inr dicts)
    show ?thesis
    proof (cases "related_queries_of dicts")
      case (Inl e2)
      with assms g Inr h1 show ?thesis by (simp add: chat_def)
    next
      case rel: (Inr related)
      obtain r2 s2 where l: "gather_results s1 [] (JStr question # related) = (r2, s2)"
        by (cases "gather_results s1 [] (JStr question # related)")
      then have h2: "conversation_history s2 = conversation_history s1"
        using gather_results_history [of s1 "[]" "JStr question # related"] by simp
      show ?thesis
      proof (cases r2)
        case (Inl e3)
        with assms g Inr rel l h1 h2 show ?thesis by (simp add: chat_def)
      next
        case res: (Inr all_results)
        with assms g Inr rel l have "synthesize s2 question all_results = (Inl e, s')"
          by (simp add: chat_def split: if_splits)
        from synthesize_raises [OF this] h1 h2 show ?thesis by simp
      qed
    qed
  qed
qed

section \<open>Evaluation on the test doubles\<close>

lemmas demo_defs = demo_instance_def ChatWithFile_def setup_conversation_retrieval_chain_def
  demo_library_def demo_llm_def demo_chain_def demo_loads_def demo_answers_def

lemmas chat_defs = chat_def generate_related_queries_def parse_related_queries_def json_str_def
  py_rfind_def py_slice_def slice_bound_def related_queries_of_def invoke_backend_def
  invoke_chain_def synthesize_def reciprocal_rank_fusion_def fuse_result_def sorted_reverse_def
  create_synthesis_prompt_def append_turn_def expansion_prompt_def Let_def

section \<open>The history after a run of calls\<close>

lemma alternating_turns:
  "alternating (concat (map (\<lambda>(q, c). [HumanMessage q, AIMessage c]) qcs))"
  by (induction qcs) auto

lemma chat_calls_history:
  assumes "chat_calls lib s questions = (Inr answers, s')"
  shows "\<exists>cs. length cs = length questions
    \<and> conversation_history s' = conversation_history s
        @ concat (map (\<lambda>(q, c). [HumanMessage q, AIMessage c]) (zip questions cs))"
  using assms
proof (induction questions arbitrary: s answers)
  case Nil
  then show ?case by simp
next
  case (Cons q qs)
  obtain r1 s1 where c1: "chat lib s q = (r1, s1)" by (cases "chat lib s q")
  with Cons.prems obtain a where r1: "r1 = Inr a" by (cases r1) simp_all
  obtain r2 s2 where c2: "chat_calls lib s1 qs = (r2, s2)" by (cases "chat_calls lib s1 qs")
  with Cons.prems c1 r1 obtain rest where r2: "r2 = Inr rest" by (cases r2) simp_all
  from Cons.prems c1 r1 c2 r2 have s2: "s2 = s'" by simp
  from chat_appends c1 r1 obtain c
    where h1: "conversation_history s1 = conversation_history s @ [HumanMessage q, AIMessage c]"
    by blast
  from Cons.IH c2 r2 s2 obtain cs where len: "length cs = length qs"
    and h2: "conversation_history s' = conversation_history s1
        @ concat (map (\<lambda>(q, c). [HumanMessage q, AIMessage c]) (zip qs cs))"
    by blast
  have "length (c # cs) = length (q # qs)" using len by simp
  moreover have "conversation_history s' = conversation_history s
        @ concat (map (\<lambda>(q, c). [HumanMessage q, AIMessage c]) (zip (q # qs) (c # cs)))"
    using h1 h2 by simp
  ultimately show ?case by blast
qed

lemma turns_length:
  "length cs = length qs \<Longrightarrow>
    length (concat (map (\<lambda>(q, c). [HumanMessage q, AIMessage c]) (zip qs cs))) = 2 * length qs"
  by (induction qs cs rule: list_induct2') auto

lemma turns_human:
  "length cs = length qs \<Longrightarrow> i < length qs \<Longrightarrow>
    concat (map (\<lambda>(q, c). [HumanMessage q, AIMessage c]) (zip qs cs)) ! (2 * i) = HumanMessage (qs ! i)"
proof (induction qs cs arbitrary: i rule: list_induct2')
  case (4 q qs c cs)
  then show ?case by (cases i) auto
qed auto

lemma turns_ai:
  "length cs = length qs \<Longrightarrow> i < length qs \<Longrightarrow>
    concat (map (\<lambda>(q, c). [HumanMessage q, AIMessage c]) (zip qs cs)) ! (2 * i + 1) = AIMessage (cs ! i)"
proof (induction qs cs arbitrary: i rule: list_induct2')
  case (4 q qs c cs)
  then show ?case by (cases i) auto
qed auto

text \<open>
  C3. After \<open>N\<close> calls of \<^verbatim>\<open>chat\<close> that returned, the history has grown by exactly \<open>2N\<close>
  entries: the entries it had are still its prefix, and the new ones alternate, a
  \<open>HumanMessage\<close> with the question of the call followed by an \<open>AIMessage\<close>. On an instance
  that started with the empty history the length is exactly \<open>2N\<close> and the whole history
  alternates, the human turn first. Every single call that returns, with results or without,
  appends one human turn and then one AI turn.
\<close>

theorem history_after_chats:
  assumes "chat_calls lib s questions = (Inr answers, s')"
  shows "length (conversation_history s')
        = length (conversation_history s) + 2 * length questions
    \<and> take (length (conversation_history s)) (conversation_history s') = conversation_history s
    \<and> alternating (drop (length (conversation_history s)) (conversation_history s'))
    \<and> (\<forall>i < length questions.
          conversation_history s' ! (length (conversation_history s) + 2 * i)
            = HumanMessage (questions ! i)
          \<and> (\<exists>c. conversation_history s' ! (length (conversation_history s) + 2 * i + 1)
                = AIMessage c))
    \<and> (conversation_history s = [] \<longrightarrow>
          length (conversation_history s') = 2 * length questions
          \<and> alternating (conversation_history s'))
    \<and> (\<forall>q a t. chat lib s q = (Inr a, t) \<longrightarrow>
          (\<exists>c. conversation_history t = conversation_history s @ [HumanMessage q, AIMessage c]))"
proof -
  from chat_calls_history [OF assms] obtain cs where len: "length cs = length questions"
    and h: "conversation_history s' = conversation_history s
        @ concat (map (\<lambda>(q, c). [HumanMessage q, AIMessage c]) (zip questions cs))"
    by blast
  let ?new = "concat (map (\<lambda>(q, c). [HumanMessage q, AIMessage c]) (zip questions cs))"
  have a: "length (conversation_history s')
        = length (conversation_history s) + 2 * length questions"
    using h turns_length [OF len] by simp
  have b: "take (length (conversation_history s)) (conversation_history s') = conversation_history s"
    using h by simp
  have c: "alternating (drop (length (conversation_history s)) (conversation_history s'))"
    using h alternating_turns [of "zip questions cs"] by simp
  have d: "\<forall>i < length questions.
          conversation_history s' ! (length (conversation_history s) + 2 * i)
            = HumanMessage (questions ! i)
          \<and> (\<exists>c. conversation_history s' ! (length (conversation_history s) + 2 * i + 1)
                = AIMessage c)"
  proof (intro allI impI)
    fix i assume i: "i < length questions"
    have "conversation_history s' ! (length (conversation_history s) + 2 * i) = ?new ! (2 * i)"
      using h by (simp add: nth_append)
    moreover have "conversation_history s' ! (length (conversation_history s) + 2 * i + 1)
        = ?new ! (2 * i + 1)"
      using h by (simp add: nth_append)
    ultimately show "conversation_history s' ! (length (conversation_history s) + 2 * i)
            = HumanMessage (questions ! i)
          \<and> (\<exists>c. conversation_history s' ! (length (conversation_history s) + 2 * i + 1)
                = AIMessage c)"
      using turns_human [OF len i] turns_ai [OF len i] by simp
  qed
  have e: "conversation_history s = [] \<longrightarrow>
          length (conversation_history s') = 2 * length questions
          \<and> alternating (conversation_history s')"
    using a c by auto
  have f: "\<forall>q a t. chat lib s q = (Inr a, t) \<longrightarrow>
          (\<exists>c. conversation_history t = conversation_history s @ [HumanMessage q, AIMessage c])"
    using chat_appends by blast
  from a b c d e f show ?thesis by blast
qed

theorem history_after_chats_witness:
  "length (conversation_history (snd (chat_calls (demo_library ''I cannot list any.'' demo_answers)
       (demo_instance ''I cannot list any.'' demo_answers)
       [''What is the capital of France?'', ''Who designed the Eiffel Tower?'']))) = 4
   \<and> alternating (conversation_history (snd (chat_calls
       (demo_library ''I cannot list any.'' demo_answers)
       (demo_instance ''I cannot list any.'' demo_answers)
       [''What is the capital of France?'', ''Who designed the Eiffel Tower?''])))"
proof -
  let ?lib = "demo_library ''I cannot list any.'' demo_answers"
  let ?s = "demo_instance ''I cannot list any.'' demo_answers"
  let ?qs = "[''What is the capital of France?'', ''Who designed the Eiffel Tower?'']"
  have "fst (chat_calls ?lib ?s ?qs)
      = Inr [''Paris'', ''No results were available to synthesize a response.'']"
    by (simp add: demo_defs chat_defs)
  then have run: "chat_calls ?lib ?s ?qs
      = (Inr [''Paris'', ''No results were available to synthesize a response.''],
         snd (chat_calls ?lib ?s ?qs))"
    by (simp add: prod_eq_iff)
  have fresh: "conversation_history ?s = []"
    by (simp add: demo_defs)
  from history_after_chats [OF run] fresh show ?thesis by simp
qed

text \<open>
  C8. When the loop of \<^verbatim>\<open>chat\<close> ends with an empty \<^verbatim>\<open>all_results\<close>, the call returns
  \<^verbatim>\<open>"No results were available to synthesize a response."\<close>, while the AI turn it appends to
  the history reads \<^verbatim>\<open>"No answer available."\<close>: the answer returned and the history shown
  disagree for that turn.
\<close>

theorem no_results_answer_differs:
  assumes "generate_related_queries lib s question = (Inr related_queries_dicts, s1)"
    and "related_queries_of related_queries_dicts = Inr related_queries"
    and "gather_results s1 [] (JStr question # related_queries) = (Inr [], s2)"
  shows "fst (chat lib s question) = Inr ''No results were available to synthesize a response.''
    \<and> conversation_history (snd (chat lib s question))
        = conversation_history s @ [HumanMessage question, AIMessage ''No answer available.'']
    \<and> content (last (conversation_history (snd (chat lib s question))))
        \<noteq> ''No results were available to synthesize a response.''"
proof -
  from assms have c: "chat lib s question
      = (Inr ''No results were available to synthesize a response.'',
         append_turn s2 question ''No answer available.'')"
    by (simp add: chat_def)
  have "conversation_history s1 = conversation_history s"
    using generate_related_queries_history [of lib s question] assms(1) by simp
  moreover have "conversation_history s2 = conversation_history s1"
    using gather_results_history [of s1 "[]" "JStr question # related_queries"] assms(3) by simp
  ultimately show ?thesis
    by (simp add: c append_turn_def)
qed

theorem no_results_answer_differs_witness:
  "fst (chat (demo_library ''I cannot list any.'' demo_answers)
         (demo_instance ''I cannot list any.'' demo_answers) ''Who designed the Eiffel Tower?'')
     = Inr ''No results were available to synthesize a response.''
   \<and> conversation_history (snd (chat (demo_library ''I cannot list any.'' demo_answers)
         (demo_instance ''I cannot list any.'' demo_answers) ''Who designed the Eiffel Tower?''))
     = [HumanMessage ''Who designed the Eiffel Tower?'', AIMessage ''No answer available.'']"
proof -
  let ?lib = "demo_library ''I cannot list any.'' demo_answers"
  let ?s = "demo_instance ''I cannot list any.'' demo_answers"
  let ?q = "''Who designed the Eiffel Tower?''"
  let ?s1 = "snd (generate_related_queries ?lib ?s ?q)"
  let ?s2 = "snd (gather_results ?s1 [] [JStr ?q])"
  have "fst (generate_related_queries ?lib ?s ?q) = Inr (JArr [])"
    by (simp add: demo_defs chat_defs)
  then have g: "generate_related_queries ?lib ?s ?q = (Inr (JArr []), ?s1)"
    by (simp add: prod_eq_iff)
  have r: "related_queries_of (JArr []) = Inr []"
    by (simp add: related_queries_of_def)
  have "fst (gather_results ?s1 [] [JStr ?q]) = Inr []"
    by (simp add: demo_defs chat_defs)
  then have l: "gather_results ?s1 [] (JStr ?q # []) = (Inr [], ?s2)"
    by (simp add: prod_eq_iff)
  have fresh: "conversation_history ?s = []"
    by (simp add: demo_defs)
  from no_results_answer_differs [OF g r l] fresh show ?thesis by simp
qed

section \<open>Backends\<close>

lemma same_backends_refl: "same_backends s s"
  by (simp add: same_backends_def)

lemma same_backends_trans: "same_backends s s1 \<Longrightarrow> same_backends s1 s2 \<Longrightarrow> same_backends s s2"
  by (simp add: same_backends_def)

lemma invoke_backend_backends: "same_backends s (snd (invoke_backend s q))"
  by (simp add: invoke_backend_def invoke_chain_def same_backends_def
      split: option.split prod.split)

lemma gather_results_backends: "same_backends s (snd (gather_results s acc qs))"
proof (induction qs arbitrary: s acc)
  case Nil
  then show ?case by (simp add: same_backends_refl)
next
  case (Cons q qs)
  obtain r s1 where step: "invoke_backend s q = (r, s1)" by (cases "invoke_backend s q")
  then have b1: "same_backends s s1"
    using invoke_backend_backends [of s q] by simp
  show ?case
  proof (cases r)
    case (Inl e)
    with step b1 show ?thesis by simp
  next
    case (Inr response)
    show ?thesis
    proof (cases response)
      case None
      let ?s1 = "s1\<lparr>page := page s1 @ [Write [Text ''No response received for:'', Query q]]\<rparr>"
      have "same_backends s ?s1" using b1 by (simp add: same_backends_def)
      from same_backends_trans [OF this Cons.IH [of ?s1 acc]] Inr None step
      show ?thesis by simp
    next
      case (Some a)
      let ?s1 = "s1\<lparr>page := page s1 @ [Write [Text ''Query:'', Query q],
                                        Write [Text ''Response:'', Text a]]\<rparr>"
      have "same_backends s ?s1" using b1 by (simp add: same_backends_def)
      from same_backends_trans [OF this Cons.IH [of ?s1 "acc @ [\<lparr>query = q, answer = a\<rparr>]"]]
        Inr Some step
      show ?thesis by simp
    qed
  qed
qed

lemma generate_related_queries_backends:
  "same_backends s (snd (generate_related_queries lib s q))"
  by (simp add: generate_related_queries_def same_backends_def
      split: option.split prod.split sum.split)

lemma synthesize_backends: "same_backends s (snd (synthesize s question all_results))"
  by (auto simp: synthesize_def Let_def append_turn_def create_synthesis_prompt_def
      same_backends_def split: option.splits prod.splits sum.splits llm_response.splits)

lemma chat_backends: "same_backends s (snd (chat lib s question))"
proof -
  obtain r1 s1 where g: "generate_related_queries lib s question = (r1, s1)"
    by (cases "generate_related_queries lib s question")
  then have b1: "same_backends s s1"
    using generate_related_queries_backends [of s lib question] by simp
  show ?thesis
  proof (cases r1)
    case (Inl e)
    with g b1 show ?thesis by (simp add: chat_def)
  next
    case (Inr dicts)
    show ?thesis
    proof (cases "related_queries_of dicts")
      case (Inl e)
      with g Inr b1 show ?thesis by (simp add: chat_def)
    next
      case rel: (Inr related)
      obtain r2 s2 where l: "gather_results s1 [] (JStr question # related) = (r2, s2)"
        by (cases "gather_results s1 [] (JStr question # related)")
      then have "same_backends s1 s2"
        using gather_results_backends [of s1 "[]" "JStr question # related"] by simp
      with b1 have b2: "same_backends s s2" by (rule same_backends_trans)
      show ?thesis
      proof (cases r2)
        case (Inl e)
        with g Inr rel l b2 show ?thesis by (simp add: chat_def)
      next
        case res: (Inr all_results)
        have "same_backends s2 (snd (synthesize s2 question all_results))"
          by (rule synthesize_backends)
        with b2 have "same_backends s (snd (synthesize s2 question all_results))"
          by (rule same_backends_trans)
        moreover have "same_backends s (append_turn s2 question ''No answer available.'')"
          using b2 by (simp add: same_backends_def append_turn_def)
        ultimately show ?thesis
          using g Inr rel l res by (simp add: chat_def)
      qed
    qed
  qed
qed

section \<open>Related queries that are not dictionaries; missing credentials\<close>

lemma query_of_each_ok:
  "list_all has_query qs \<Longrightarrow> \<exists>vs. query_of_each qs = Inr vs \<and> length vs = length qs"
proof (induction qs)
  case Nil
  then show ?case by simp
next
  case (Cons q qs)
  then obtain vs where "query_of_each qs = Inr vs" "length vs = length qs" by auto
  moreover from Cons.prems obtain v where "subscript_query q = Inr v"
    by (cases q) auto
  ultimately show ?case by simp
qed

lemma query_of_each_only_dicts:
  "query_of_each qs = Inr vs \<Longrightarrow> list_all has_query qs"
proof (induction qs arbitrary: vs)
  case Nil
  then show ?case by simp
next
  case (Cons q qs)
  from Cons.prems have "has_query q"
    by (cases q) (auto split: option.splits)
  moreover from Cons.prems obtain ws where "query_of_each qs = Inr ws"
    by (auto split: sum.splits)
  ultimately show ?case using Cons.IH by simp
qed

lemma query_of_each_plain_string:
  "is_plain_string q \<Longrightarrow> query_of_each (q # qs) = Inl TypeError"
  by (cases q) simp_all

text \<open>
  C9. Let \<^verbatim>\<open>generate_related_queries\<close> return a decoded array. If the array is not empty
  and its elements are plain strings, \<^verbatim>\<open>chat\<close> raises \<open>TypeError\<close> in the comprehension
  \<^verbatim>\<open>[q['query'] for q in related_queries_dicts]\<close>, before any retrieval and with the history
  untouched. The comprehension succeeds exactly when every element is a dictionary with the
  key \<^verbatim>\<open>'query'\<close>; whatever it raises leaves \<^verbatim>\<open>chat\<close>, so \<^verbatim>\<open>chat\<close> returns only in that case.
\<close>

theorem plain_string_queries_raise:
  assumes "generate_related_queries lib s question = (Inr (JArr parsed), s1)"
  shows "(parsed \<noteq> [] \<and> list_all is_plain_string parsed
            \<longrightarrow> chat lib s question = (Inl TypeError, s1))
    \<and> (\<forall>e. related_queries_of (JArr parsed) = Inl e \<longrightarrow> chat lib s question = (Inl e, s1))
    \<and> ((\<exists>related_queries. related_queries_of (JArr parsed) = Inr related_queries)
          = list_all has_query parsed)
    \<and> (\<forall>a s'. chat lib s question = (Inr a, s') \<longrightarrow> list_all has_query parsed)
    \<and> conversation_history s1 = conversation_history s"
proof -
  have raise: "\<forall>e. related_queries_of (JArr parsed) = Inl e
      \<longrightarrow> chat lib s question = (Inl e, s1)"
    using assms by (simp add: chat_def)
  have plain: "parsed \<noteq> [] \<and> list_all is_plain_string parsed
      \<longrightarrow> chat lib s question = (Inl TypeError, s1)"
  proof
    assume a: "parsed \<noteq> [] \<and> list_all is_plain_string parsed"
    then obtain q qs where "parsed = q # qs" and "is_plain_string q"
      by (cases parsed) auto
    then have "related_queries_of (JArr parsed) = Inl TypeError"
      by (simp add: related_queries_of_def query_of_each_plain_string del: query_of_each.simps)
    with raise show "chat lib s question = (Inl TypeError, s1)" by blast
  qed
  have iff: "(\<exists>related_queries. related_queries_of (JArr parsed) = Inr related_queries)
      = list_all has_query parsed"
    using query_of_each_ok [of parsed] query_of_each_only_dicts [of parsed]
    by (auto simp: related_queries_of_def)
  have proceeds: "\<forall>a s'. chat lib s question = (Inr a, s') \<longrightarrow> list_all has_query parsed"
  proof (intro allI impI)
    fix a s' assume c: "chat lib s question = (Inr a, s')"
    with assms obtain related_queries
      where "related_queries_of (JArr parsed) = Inr related_queries"
      by (cases "related_queries_of (JArr parsed)") (simp_all add: chat_def)
    with iff show "list_all has_query parsed" by blast
  qed
  have hist: "conversation_history s1 = conversation_history s"
    using generate_related_queries_history [of lib s question] assms by simp
  from plain raise iff proceeds hist show ?thesis by blast
qed

theorem plain_string_queries_raise_witness:
  \<open>fst (chat (demo_library ''["capital of France", "largest French city"]'' demo_answers)
         (demo_instance ''["capital of France", "largest French city"]'' demo_answers)
         ''What is the capital of France?'') = Inl TypeError\<close>
proof -
  let ?reply = \<open>''["capital of France", "largest French city"]''\<close>
  let ?lib = "demo_library ?reply demo_answers"
  let ?s = "demo_instance ?reply demo_answers"
  let ?q = "''What is the capital of France?''"
  let ?parsed = "[JStr ''capital of France'', JStr ''largest French city'']"
  have "fst (generate_related_queries ?lib ?s ?q) = Inr (JArr ?parsed)"
    by (simp add: demo_defs chat_defs)
  then have g: "generate_related_queries ?lib ?s ?q
      = (Inr (JArr ?parsed), snd (generate_related_queries ?lib ?s ?q))"
    by (simp add: prod_eq_iff)
  have "?parsed \<noteq> [] \<and> list_all is_plain_string ?parsed" by simp
  with plain_string_queries_raise [OF g] show ?thesis by simp
qed

lemma chat_without_llm: "llm s = None \<Longrightarrow> chat lib s question = (Inl AttributeError, s)"
  by (simp add: chat_def generate_related_queries_def)

lemma setup_qa_anthropic_unbound:
  "chains s ''qa_anthropic'' = None
    \<Longrightarrow> chains (setup_conversation_retrieval_chain lib s) ''qa_anthropic'' = None"
  by (simp add: setup_conversation_retrieval_chain_def Let_def split: option.split)

lemma ChatWithFile_qa_anthropic_unbound:
  "chains (ChatWithFile lib openai_key anthropic_key w) ''qa_anthropic'' = None"
  by (simp add: ChatWithFile_def setup_qa_anthropic_unbound)

lemma ChatWithFile_llm:
  "llm (ChatWithFile lib openai_key anthropic_key w)
     = (if key_given openai_key then Some (ChatOpenAI lib (the openai_key)) else None)"
  by (cases openai_key; cases anthropic_key)
     (auto simp: ChatWithFile_def setup_conversation_retrieval_chain_def Let_def)

lemma ChatWithFile_llm_anthropic:
  "llm_anthropic (ChatWithFile lib openai_key anthropic_key w)
     = (if key_given anthropic_key then Some (ChatAnthropic lib (the anthropic_key)) else None)"
  by (cases openai_key; cases anthropic_key)
     (auto simp: ChatWithFile_def setup_conversation_retrieval_chain_def Let_def)

lemma ChatWithFile_anthropic_qa:
  "chains (ChatWithFile lib openai_key anthropic_key w) ''anthropic_qa''
     = (if key_given anthropic_key
        then Some (from_llm lib (ChatAnthropic lib (the anthropic_key))) else None)"
  by (cases openai_key; cases anthropic_key)
     (auto simp: ChatWithFile_def setup_conversation_retrieval_chain_def Let_def)

text \<open>
  C1. What the program does with no credentials. With neither key given, \<^verbatim>\<open>self.llm\<close> and
  \<^verbatim>\<open>self.llm_anthropic\<close> are both \<^verbatim>\<open>None\<close>, and \<^verbatim>\<open>chat\<close> raises \<open>AttributeError\<close> in
  \<^verbatim>\<open>generate_related_queries\<close>, at \<^verbatim>\<open>self.llm.invoke\<close>: it returns no fallback text and the
  history stays empty.
\<close>

theorem chat_without_credentials:
  assumes "\<not> key_given openai_key" and "\<not> key_given anthropic_key"
  shows "llm (ChatWithFile lib openai_key anthropic_key w) = None
    \<and> llm_anthropic (ChatWithFile lib openai_key anthropic_key w) = None
    \<and> chat lib (ChatWithFile lib openai_key anthropic_key w) question
        = (Inl AttributeError, ChatWithFile lib openai_key anthropic_key w)
    \<and> conversation_history (snd (chat lib (ChatWithFile lib openai_key anthropic_key w) question))
        = []"
proof -
  have none: "llm (ChatWithFile lib openai_key anthropic_key w) = None"
    using assms by (simp add: ChatWithFile_llm)
  moreover have "llm_anthropic (ChatWithFile lib openai_key anthropic_key w) = None"
    using assms by (simp add: ChatWithFile_llm_anthropic)
  moreover have "conversation_history (ChatWithFile lib openai_key anthropic_key w) = []"
    by (simp add: ChatWithFile_def setup_conversation_retrieval_chain_def Let_def
        split: option.split)
  ultimately show ?thesis
    by (simp add: chat_without_llm [OF none])
qed

theorem chat_without_credentials_witness:
  "fst (chat (demo_library ''[]'' demo_answers)
         (ChatWithFile (demo_library ''[]'' demo_answers) None None 0)
         ''What is the capital of France?'') = Inl AttributeError
   \<and> conversation_history (snd (chat (demo_library ''[]'' demo_answers)
         (ChatWithFile (demo_library ''[]'' demo_answers) None None 0)
         ''What is the capital of France?'')) = []"
proof -
  have no_key: "\<not> key_given None" by simp
  note t = chat_without_credentials [OF no_key no_key, of "demo_library ''[]'' demo_answers" 0
      "''What is the capital of France?''"]
  from t have "chat (demo_library ''[]'' demo_answers)
         (ChatWithFile (demo_library ''[]'' demo_answers) None None 0)
         ''What is the capital of France?''
      = (Inl AttributeError, ChatWithFile (demo_library ''[]'' demo_answers) None None 0)"
    by blast
  then have "fst (chat (demo_library ''[]'' demo_answers)
         (ChatWithFile (demo_library ''[]'' demo_answers) None None 0)
         ''What is the capital of France?'') = Inl AttributeError"
    by simp
  moreover from t have "conversation_history (snd (chat (demo_library ''[]'' demo_answers)
         (ChatWithFile (demo_library ''[]'' demo_answers) None None 0)
         ''What is the capital of France?'')) = []"
    by blast
  ultimately show ?thesis by blast
qed

text \<open>
  C4. With the Anthropic key only, \<^verbatim>\<open>self.llm\<close> is \<^verbatim>\<open>None\<close> and \<^verbatim>\<open>self.llm_anthropic\<close> is set;
  the setup binds \<^verbatim>\<open>anthropic_qa\<close>, and \<^verbatim>\<open>qa_anthropic\<close>, the name the Anthropic branch of
  \<^verbatim>\<open>chat\<close> reads, is bound by no setup and by no call of \<^verbatim>\<open>chat\<close>. So the branch raises
  \<open>AttributeError\<close> for every query, the loop yields no result, and \<^verbatim>\<open>chat\<close> raises.
\<close>

theorem anthropic_branch_unbound:
  assumes "\<not> key_given openai_key" and "key_given anthropic_key"
  shows "llm (ChatWithFile lib openai_key anthropic_key w) = None
    \<and> llm_anthropic (ChatWithFile lib openai_key anthropic_key w) \<noteq> None
    \<and> chains (ChatWithFile lib openai_key anthropic_key w) ''anthropic_qa'' \<noteq> None
    \<and> chains (ChatWithFile lib openai_key anthropic_key w) ''qa_anthropic'' = None
    \<and> (\<forall>query_text. invoke_backend (ChatWithFile lib openai_key anthropic_key w) query_text
          = (Inl AttributeError, ChatWithFile lib openai_key anthropic_key w))
    \<and> (\<forall>results queries.
          fst (gather_results (ChatWithFile lib openai_key anthropic_key w) results queries)
            = (if queries = [] then Inr results else Inl AttributeError))
    \<and> (\<forall>question. fst (chat lib (ChatWithFile lib openai_key anthropic_key w) question)
          = Inl AttributeError)
    \<and> (\<forall>k1 k2. chains (ChatWithFile lib k1 k2 w) ''qa_anthropic'' = None)
    \<and> (\<forall>s question. chains (snd (chat lib s question)) = chains s)"
proof -
  let ?s = "ChatWithFile lib openai_key anthropic_key w"
  have a: "llm ?s = None" using assms by (simp add: ChatWithFile_llm)
  have b: "llm_anthropic ?s \<noteq> None" using assms by (simp add: ChatWithFile_llm_anthropic)
  have c: "chains ?s ''anthropic_qa'' \<noteq> None" using assms by (simp add: ChatWithFile_anthropic_qa)
  have d: "chains ?s ''qa_anthropic'' = None" by (rule ChatWithFile_qa_anthropic_unbound)
  have e: "\<forall>query_text. invoke_backend ?s query_text = (Inl AttributeError, ?s)"
    using a b d by (simp add: invoke_backend_def invoke_chain_def)
  have f: "\<forall>results queries. fst (gather_results ?s results queries)
            = (if queries = [] then Inr results else Inl AttributeError)"
  proof (intro allI)
    fix results queries
    show "fst (gather_results ?s results queries)
            = (if queries = [] then Inr results else Inl AttributeError)"
      using e by (cases queries) simp_all
  qed
  have g: "\<forall>question. fst (chat lib ?s question) = Inl AttributeError"
    by (simp add: chat_without_llm [OF a])
  have h: "\<forall>k1 k2. chains (ChatWithFile lib k1 k2 w) ''qa_anthropic'' = None"
    by (simp add: ChatWithFile_qa_anthropic_unbound)
  have i: "\<forall>s question. chains (snd (chat lib s question)) = chains s"
    using chat_backends [of _ lib] by (simp add: same_backends_def)
  from a b c d e f g h i show ?thesis by blast
qed

theorem anthropic_branch_unbound_witness:
  "fst (invoke_backend (ChatWithFile (demo_library ''[]'' demo_answers) None (Some ''sk-ant-test'') 0)
         (JStr ''What is the capital of France?'')) = Inl AttributeError
   \<and> fst (chat (demo_library ''[]'' demo_answers)
         (ChatWithFile (demo_library ''[]'' demo_answers) None (Some ''sk-ant-test'') 0)
         ''What is the capital of France?'') = Inl AttributeError"
  using anthropic_branch_unbound [of None "Some ''sk-ant-test''" "demo_library ''[]'' demo_answers" 0]
  by simp

section \<open>Order of the fused results\<close>

lemma gather_results_first:
  assumes "invoke_backend s q = (Inr (Some a), s1)"
    and "gather_results s [] (q # qs) = (Inr rs, s')"
  shows "\<exists>more. rs = \<lparr>query = q, answer = a\<rparr> # more"
proof -
  let ?s1 = "s1\<lparr>page := page s1 @ [Write [Text ''Query:'', Query q],
                                    Write [Text ''Response:'', Text a]]\<rparr>"
  from assms have "fst (gather_results ?s1 ([] @ [\<lparr>query = q, answer = a\<rparr>]) qs) = Inr rs"
    by simp
  from gather_results_extends [OF this] show ?thesis by simp
qed

text \<open>
  C10. For every list of results whose \<^verbatim>\<open>'query'\<close> fields are pairwise distinct,
  \<^verbatim>\<open>reciprocal_rank_fusion\<close> returns a list of the same length, with the results in the
  order of the input and every score 1. So in \<^verbatim>\<open>chat\<close>, when the retrieval answered the
  original question and the queries of the results are hashable and pairwise distinct, the
  result for the original question is the first of the reranked results.
\<close>

theorem fusion_keeps_order:
  "(distinct (map query all_results) \<longrightarrow>
      length (reciprocal_rank_fusion all_results) = length all_results
      \<and> map doc (reciprocal_rank_fusion all_results) = all_results
      \<and> map score (reciprocal_rank_fusion all_results) = replicate (length all_results) 1)
   \<and> (\<forall>s question related a s1 s' rs.
        invoke_backend s (JStr question) = (Inr (Some a), s1)
        \<and> gather_results s [] (JStr question # related) = (Inr rs, s')
        \<and> list_all (\<lambda>r. hashable (query r)) rs \<and> distinct (map query rs)
        \<longrightarrow> doc (hd (reciprocal_rank_fusion rs)) = \<lparr>query = JStr question, answer = a\<rparr>)"
proof
  show "distinct (map query all_results) \<longrightarrow>
      length (reciprocal_rank_fusion all_results) = length all_results
      \<and> map doc (reciprocal_rank_fusion all_results) = all_results
      \<and> map score (reciprocal_rank_fusion all_results) = replicate (length all_results) 1"
    by (simp add: reciprocal_rank_fusion_distinct comp_def map_replicate_const)
next
  show "\<forall>s question related a s1 s' rs.
        invoke_backend s (JStr question) = (Inr (Some a), s1)
        \<and> gather_results s [] (JStr question # related) = (Inr rs, s')
        \<and> list_all (\<lambda>r. hashable (query r)) rs \<and> distinct (map query rs)
        \<longrightarrow> doc (hd (reciprocal_rank_fusion rs)) = \<lparr>query = JStr question, answer = a\<rparr>"
  proof (intro allI impI, elim conjE)
    fix s question related a s1 s' rs
    assume first: "invoke_backend s (JStr question) = (Inr (Some a), s1)"
      and loop: "gather_results s [] (JStr question # related) = (Inr rs, s')"
      and "list_all (\<lambda>r. hashable (query r)) rs"
      and d: "distinct (map query rs)"
    from gather_results_first [OF first loop] obtain more
      where "rs = \<lparr>query = JStr question, answer = a\<rparr> # more" by blast
    with d show "doc (hd (reciprocal_rank_fusion rs)) = \<lparr>query = JStr question, answer = a\<rparr>"
      by (simp add: reciprocal_rank_fusion_distinct)
  qed
qed

theorem fusion_keeps_order_witness:
  \<open>map doc (reciprocal_rank_fusion
      [\<lparr>query = ''capital of France'', answer = ''Paris''\<rparr>,
       \<lparr>query = ''largest French city'', answer = ''Paris, again''\<rparr>])
     = [\<lparr>query = ''capital of France'', answer = ''Paris''\<rparr>,
        \<lparr>query = ''largest French city'', answer = ''Paris, again''\<rparr>]
   \<and> doc (hd (reciprocal_rank_fusion
        [\<lparr>query = JStr ''What is the capital of France?'',
          answer = ''Paris is the capital of France.''\<rparr>,
         \<lparr>query = JStr ''largest French city'',
          answer = ''Paris is the largest city of France.''\<rparr>]))
     = \<lparr>query = JStr ''What is the capital of France?'',
        answer = ''Paris is the capital of France.''\<rparr>\<close>
proof -
  let ?pure = "[\<lparr>query = ''capital of France'', answer = ''Paris''\<rparr>,
       \<lparr>query = ''largest French city'', answer = ''Paris, again''\<rparr>]"
  have "distinct (map query ?pure)" by simp
  with fusion_keeps_order [of ?pure]
  have one: "map doc (reciprocal_rank_fusion ?pure) = ?pure" by blast
  let ?reply = \<open>''[{"query": "largest French city"}]''\<close>
  let ?lib = "demo_library ?reply demo_answers"
  let ?q = "''What is the capital of France?''"
  let ?s = "snd (generate_related_queries ?lib (demo_instance ?reply demo_answers) ?q)"
  let ?related = "[JStr ''largest French city'']"
  let ?rs = "[\<lparr>query = JStr ?q, answer = ''Paris is the capital of France.''\<rparr>,
         \<lparr>query = JStr ''largest French city'',
          answer = ''Paris is the largest city of France.''\<rparr>]"
  have "fst (generate_related_queries ?lib (demo_instance ?reply demo_answers) ?q)
      = Inr (JArr [JObj [(''query'', JStr ''largest French city'')]])"
    by (simp add: demo_defs chat_defs)
  have "fst (invoke_backend ?s (JStr ?q)) = Inr (Some ''Paris is the capital of France.'')"
    by (simp add: demo_defs chat_defs)
  then have first: "invoke_backend ?s (JStr ?q)
      = (Inr (Some ''Paris is the capital of France.''), snd (invoke_backend ?s (JStr ?q)))"
    by (simp add: prod_eq_iff)
  have "fst (gather_results ?s [] (JStr ?q # ?related)) = Inr ?rs"
    by (simp add: demo_defs chat_defs)
  then have loop: "gather_results ?s [] (JStr ?q # ?related)
      = (Inr ?rs, snd (gather_results ?s [] (JStr ?q # ?related)))"
    by (simp add: prod_eq_iff)
  have d: "list_all (\<lambda>r. hashable (query r)) ?rs \<and> distinct (map query ?rs)" by simp
  from fusion_keeps_order [of ?pure] first loop d
  have two: "doc (hd (reciprocal_rank_fusion ?rs))
      = \<lparr>query = JStr ?q, answer = ''Paris is the capital of France.''\<rparr>"
    by blast
  from one two show ?thesis by blast
qed

section \<open>Files the upload page rejects\<close>

text \<open>
  C6. For an uploaded file whose name ends in none of \<^verbatim>\<open>.csv\<close>, \<^verbatim>\<open>.pdf\<close>, \<^verbatim>\<open>.txt\<close>,
  \<^verbatim>\<open>.pptx\<close>, \<^verbatim>\<open>.docx\<close>, \<^verbatim>\<open>.xlsx\<close>, the upload handler shows the error message, writes no
  file, creates no directory and leaves the session state as it was.
\<close>

theorem unsupported_upload_rejected:
  assumes "\<forall>ext \<in> {''.csv'', ''.pdf'', ''.txt'', ''.pptx'', ''.docx'', ''.xlsx''}.
             \<not> endswith (name f) ext"
  shows "session_state (upload_and_handle_file a (Some f)) = session_state a
    \<and> files (upload_and_handle_file a (Some f)) = files a
    \<and> directories (upload_and_handle_file a (Some f)) = directories a
    \<and> elements (upload_and_handle_file a (Some f)) = elements a @
        [Title ''Document QA - Chat with Document Data'',
         FileUploader ''Choose a XLSX, PPTX, DOCX, PDF, CSV, or TXT file''
           [''xlsx'', ''pptx'', ''docx'', ''pdf'', ''csv'', ''txt''],
         ErrorMessage (''Unsupported file type. Please upload a XLSX, PPTX, ''
            @ ''DOCX, PDF, CSV, or TXT file.'')]"
proof -
  from assms have "file_type_of (name f) = None"
    by (simp add: file_type_of_def)
  then show ?thesis
    by (simp add: upload_and_handle_file_def Let_def)
qed

theorem unsupported_upload_rejected_witness:
  "session_state (upload_and_handle_file
      \<lparr>session_state = [''page'' \<mapsto> StateInt 1], files = Map.empty, directories = {},
       elements = []\<rparr>
      (Some \<lparr>name = ''photo.png'', getvalue = ''PNG''\<rparr>)) = [''page'' \<mapsto> StateInt 1]
   \<and> files (upload_and_handle_file
      \<lparr>session_state = [''page'' \<mapsto> StateInt 1], files = Map.empty, directories = {},
       elements = []\<rparr>
      (Some \<lparr>name = ''photo.png'', getvalue = ''PNG''\<rparr>)) = Map.empty
   \<and> last (elements (upload_and_handle_file
      \<lparr>session_state = [''page'' \<mapsto> StateInt 1], files = Map.empty, directories = {},
       elements = []\<rparr>
      (Some \<lparr>name = ''photo.png'', getvalue = ''PNG''\<rparr>)))
      = ErrorMessage (''Unsupported file type. Please upload a XLSX, PPTX, ''
            @ ''DOCX, PDF, CSV, or TXT file.'')"
proof -
  let ?f = "\<lparr>name = ''photo.png'', getvalue = ''PNG''\<rparr>"
  have "\<forall>ext \<in> {''.csv'', ''.pdf'', ''.txt'', ''.pptx'', ''.docx'', ''.xlsx''}.
             \<not> endswith (name ?f) ext"
    by (simp add: endswith_def)
  from unsupported_upload_rejected [OF this] show ?thesis by simp
qed

section \<open>Simplified metadata\<close>

lemma simplified_value_flat: "\<not> is_list_or_dict (simplified_value str v)"
  by (simp add: simplified_value_def)

lemma update_after_prefix:
  "k \<notin> fst ` set pre \<Longrightarrow> AList.update k v (pre @ (k, u) # rest) = pre @ (k, v) # rest"
  by (induction pre) auto

lemma simplify_item_at:
  assumes "k \<notin> fst ` set pre"
  shows "simplify_item str (pre @ (k, v) # rest) (k, v) = pre @ (k, simplified_value str v) # rest"
  using assms by (simp add: simplify_item_def simplified_value_def update_after_prefix)

lemma foldl_simplify_item:
  assumes "distinct (map fst (pre @ items))"
  shows "foldl (simplify_item str) (map (\<lambda>(k, v). (k, simplified_value str v)) pre @ items) items
    = map (\<lambda>(k, v). (k, simplified_value str v)) (pre @ items)"
  using assms
proof (induction items arbitrary: pre)
  case Nil
  then show ?case by simp
next
  case (Cons item items)
  obtain k v where item: "item = (k, v)" by (cases item)
  let ?f = "\<lambda>(k, v). (k, simplified_value str v)"
  from Cons.prems item have fresh: "k \<notin> fst ` set (map ?f pre)"
    by (auto simp: image_iff)
  from Cons.prems have d: "distinct (map fst ((pre @ [item]) @ items))" by simp
  have "foldl (simplify_item str) (map ?f pre @ item # items) (item # items)
      = foldl (simplify_item str) (map ?f (pre @ [item]) @ items) items"
    using simplify_item_at [OF fresh, of str v items] by (simp add: item)
  also have "\<dots> = map ?f ((pre @ [item]) @ items)"
    by (rule Cons.IH [OF d])
  finally show ?case by simp
qed

lemma simplify_metadata_dict:
  assumes "metadata d = Some md" and "distinct (map fst md)"
  shows "simplify_metadata str d
    = d\<lparr>metadata := Some (map (\<lambda>(k, v). (k, simplified_value str v)) md)\<rparr>"
  using assms foldl_simplify_item [of "[]" md str]
  by (simp add: simplify_metadata_def)

text \<open>
  C7, as the code has it. After the simplification a metadata dictionary has the same keys
  in the same order; every value that was a list or a dictionary is replaced by its
  \<^verbatim>\<open>str()\<close>, and every other value (a string, a number, a boolean, \<^verbatim>\<open>None\<close>, a tuple) is
  left as it was. So no value is a list or a dictionary afterwards.
\<close>

theorem metadata_lists_and_dicts_stringified:
  assumes "metadata d = Some md" and "distinct (map fst md)"
  shows "\<exists>md'. metadata (simplify_metadata str d) = Some md'
    \<and> map fst md' = map fst md
    \<and> (\<forall>k v. map_of md k = Some v \<longrightarrow>
          map_of md' k = Some (if is_list_or_dict v then MStr (str v) else v))
    \<and> list_all (\<lambda>item. \<not> is_list_or_dict (snd item)) md'
    \<and> page_content (simplify_metadata str d) = page_content d"
proof -
  let ?md' = "map (\<lambda>(k, v). (k, simplified_value str v)) md"
  have m: "metadata (simplify_metadata str d) = Some ?md'"
    and p: "page_content (simplify_metadata str d) = page_content d"
    by (simp_all add: simplify_metadata_dict [OF assms])
  have keys: "map fst ?md' = map fst md"
    by (induction md) auto
  have look: "\<forall>k v. map_of md k = Some v \<longrightarrow>
          map_of ?md' k = Some (if is_list_or_dict v then MStr (str v) else v)"
    by (induction md) (auto simp: simplified_value_def)
  have flat: "list_all (\<lambda>item. \<not> is_list_or_dict (snd item)) ?md'"
    by (induction md) (auto simp: simplified_value_flat)
  from m p keys look flat show ?thesis by blast
qed

theorem metadata_lists_and_dicts_stringified_witness:
  "metadata (simplify_metadata demo_str
      \<lparr>page_content = ''The capital of France is Paris.'',
       metadata = Some [(''source'', MStr ''temp/france.txt''), (''page'', MInt 3),
                        (''links'', MList [MInt 1, MInt 2])]\<rparr>)
    = Some [(''source'', MStr ''temp/france.txt''), (''page'', MInt 3),
            (''links'', MStr ''[1, 2]'')]"
proof -
  let ?md = "[(''source'', MStr ''temp/france.txt''), (''page'', MInt 3),
              (''links'', MList [MInt 1, MInt 2])]"
  let ?d = "\<lparr>page_content = ''The capital of France is Paris.'', metadata = Some ?md\<rparr>"
  have m: "metadata ?d = Some ?md" by simp
  have k: "distinct (map fst ?md)" by simp
  from metadata_lists_and_dicts_stringified [OF m k, of demo_str] obtain md'
    where md': "metadata (simplify_metadata demo_str ?d) = Some md'"
      and keys: "map fst md' = map fst ?md"
      and look: "\<forall>k v. map_of ?md k = Some v \<longrightarrow>
          map_of md' k = Some (if is_list_or_dict v then MStr (demo_str v) else v)"
    by blast
  from keys obtain a b c where shape: "md' = [(''source'', a), (''page'', b), (''links'', c)]"
    by (auto simp: map_eq_Cons_conv)
  from look have "map_of md' ''source'' = Some (MStr ''temp/france.txt'')"
    and "map_of md' ''page'' = Some (MInt 3)"
    and "map_of md' ''links'' = Some (MStr ''[1, 2]'')"
    by (simp_all add: demo_str_def)
  with shape have "a = MStr ''temp/france.txt''" and "b = MInt 3" and "c = MStr ''[1, 2]''"
    by simp_all
  with shape md' show ?thesis by simp
qed

text \<open>
  The metadata is not string-valued only: a page number stays a number, and a tuple, which
  is not a scalar, stays a tuple.
\<close>

theorem metadata_not_string_valued:
  "\<not> (\<forall>str docs. list_all string_valued (simplified_docs str docs))
   \<and> (\<forall>str. simplified_docs str
        [\<lparr>page_content = ''The capital of France is Paris.'',
          metadata = Some [(''page'', MInt 3), (''bbox'', MTuple [MInt 0, MInt 0])]\<rparr>]
      = [\<lparr>page_content = ''The capital of France is Paris.'',
          metadata = Some [(''page'', MInt 3), (''bbox'', MTuple [MInt 0, MInt 0])]\<rparr>])"
proof
  show "\<not> (\<forall>str docs. list_all string_valued (simplified_docs str docs))"
  proof
    assume "\<forall>str docs. list_all string_valued (simplified_docs str docs)"
    then have "list_all string_valued (simplified_docs (\<lambda>v. [])
        [\<lparr>page_content = ''The capital of France is Paris.'',
          metadata = Some [(''page'', MInt 3)]\<rparr>])"
      by blast
    then show False
      by (simp add: simplified_docs_def simplify_metadata_def simplify_item_def string_valued_def)
  qed
next
  show "\<forall>str. simplified_docs str
        [\<lparr>page_content = ''The capital of France is Paris.'',
          metadata = Some [(''page'', MInt 3), (''bbox'', MTuple [MInt 0, MInt 0])]\<rparr>]
      = [\<lparr>page_content = ''The capital of France is Paris.'',
          metadata = Some [(''page'', MInt 3), (''bbox'', MTuple [MInt 0, MInt 0])]\<rparr>]"
    by (simp add: simplified_docs_def simplify_metadata_def simplify_item_def)
qed

end
